theory Spec2Isabelle
  imports Main
begin

section \<open>The haproxy module: values, errors and outcomes\<close>

text \<open>
  A shallow embedding of \<^verbatim>\<open>network/haproxy.py\<close>. Python strings are \<open>string\<close>, \<open>None\<close>
  is \<open>None\<close>, and whatever a Python call can do is a value of \<open>outcome\<close>: it returns, it
  raises, or it never returns (a \<open>recv\<close> loop on a peer that keeps the stream open).
\<close>

datatype error =
    SocketError          \<comment> \<open>\<open>socket.error\<close> raised by connect, sendall or recv\<close>
  | IndexError           \<comment> \<open>list index out of range\<close>
  | TypeError            \<comment> \<open>subscript of \<open>None\<close>, or a \<open>None\<close> index\<close>
  | FailJson string      \<comment> \<open>\<open>module.fail_json(msg=...)\<close>, which ends the process\<close>
  | UsageError string    \<comment> \<open>\<open>AnsibleModule\<close> rejecting an argument value\<close>

datatype 'a outcome = Returns 'a | Raises error | Diverges

datatype exit = ExitJson string bool   \<comment> \<open>\<open>module.exit_json(stdout=..., changed=...)\<close>\<close>

text \<open>The calls made on socket objects, in order: the only effect the module has.\<close>

datatype event = EvSocket | EvConnect string | EvSendall string | EvClose

datatype recv_outcome = Data string | RecvError

text \<open>
  The environment. \<open>peer n\<close> is what the \<open>n\<close>-th socket created by the process meets:
  whether connecting to a path succeeds, whether sending a message succeeds, and what the
  \<open>i\<close>-th call of \<open>recv\<close> then returns (\<open>Data ''''\<close> is end of stream).
\<close>

record conn =
  connect_ok :: "string \<Rightarrow> bool"
  sendall_ok :: "string \<Rightarrow> bool"
  recv :: "string \<Rightarrow> nat \<Rightarrow> recv_outcome"

type_synonym peer = "nat \<Rightarrow> conn"

text \<open>
  A parameter with a default that is not a string: \<open>shutdown_sessions\<close> is declared with
  \<open>default=False\<close> and no type, so it is the boolean \<open>False\<close> when it is left out and the
  string the caller wrote when it is given. \<open>truthy\<close> is what \<^verbatim>\<open>if v:\<close> tests.
\<close>

datatype pyval = PyBool bool | PyStr string

fun truthy :: "pyval \<Rightarrow> bool" where
  "truthy (PyBool b) = b"
| "truthy (PyStr s) = (s \<noteq> [])"

text \<open>\<open>AnsibleModule\<close>: the parameters of \<open>argument_spec\<close> and the check-mode flag.\<close>

record ansible_module =
  p_state :: string
  p_host :: string
  p_backend :: "string option"
  p_weight :: "string option"
  p_socket :: string
  p_shutdown_sessions :: pyval
  check_mode :: bool

text \<open>
  The \<open>HAProxy\<close> object. \<open>client\<close> is the number of the socket object last created;
  \<open>events\<close> is the log of socket calls made so far.
\<close>

record haproxy =
  module :: ansible_module
  state :: string
  host :: string
  backend :: "string option"
  weight :: "string option"
  socket :: string
  shutdown_sessions :: pyval
  command_results :: string
  host_attributes :: "string list option"
  client :: "nat option"
  events :: "event list"

type_synonym 'a action = "haproxy \<Rightarrow> 'a outcome \<times> haproxy"

definition ret :: "'a \<Rightarrow> 'a action" where
  "ret x self = (Returns x, self)"

definition raise :: "error \<Rightarrow> 'a action" where
  "raise e self = (Raises e, self)"

definition bnd :: "'a action \<Rightarrow> ('a \<Rightarrow> 'b action) \<Rightarrow> 'b action" where
  "bnd m f self =
     (case m self of
        (Returns x, self') \<Rightarrow> f x self'
      | (Raises e, self') \<Rightarrow> (Raises e, self')
      | (Diverges, self') \<Rightarrow> (Diverges, self'))"

definition lift :: "(haproxy \<Rightarrow> error + 'a) \<Rightarrow> 'a action" where
  "lift f self = (case f self of Inl e \<Rightarrow> (Raises e, self) | Inr x \<Rightarrow> (Returns x, self))"

section \<open>Python string and list primitives\<close>

definition newline :: char where
  "newline = CHR 0x0A"

definition whitespace :: string where
  "whitespace = [CHR 0x09, CHR 0x0A, CHR 0x0B, CHR 0x0C, CHR 0x0D, CHR '' '']"

definition lstrip_chars :: "string \<Rightarrow> string \<Rightarrow> string" where
  "lstrip_chars cs s = dropWhile (\<lambda>c. c \<in> set cs) s"

definition strip :: "string \<Rightarrow> string" where
  "strip s = rev (lstrip_chars whitespace (rev (lstrip_chars whitespace s)))"

text \<open>
  \<open>s.split(c)\<close> for a one-character separator. The result is never empty: the empty
  string splits into one empty field, and a separator at the end leaves an empty last
  field (\<open>Nil # Nil\<close> is the list of one empty string).
\<close>

fun py_split :: "char \<Rightarrow> string \<Rightarrow> string list" where
  "py_split c [] = Nil # Nil"
| "py_split c (x # xs) =
     (if x = c then Nil # py_split c xs
      else (case py_split c xs of
              Nil \<Rightarrow> (x # Nil) # Nil
            | w # ws \<Rightarrow> (x # w) # ws))"

text \<open>\<open>xs[i]\<close> for the non-negative constant indices the module uses.\<close>

definition index :: "'a list \<Rightarrow> nat \<Rightarrow> error + 'a" where
  "index xs i = (if i < length xs then Inr (xs ! i) else Inl IndexError)"

text \<open>\<open>'%s' % v\<close> for a string or \<open>None\<close>.\<close>

definition fmt :: "string option \<Rightarrow> string" where
  "fmt v = (case v of None \<Rightarrow> ''None'' | Some s \<Rightarrow> s)"

section \<open>The module\<close>

definition ACTION_CHOICES :: "string list" where
  "ACTION_CHOICES = [''enabled'', ''disabled'']"

definition HAProxy_init :: "ansible_module \<Rightarrow> haproxy" where
  "HAProxy_init m =
     \<lparr> module = m,
       state = p_state m,
       host = p_host m,
       backend = p_backend m,
       weight = p_weight m,
       socket = p_socket m,
       shutdown_sessions = p_shutdown_sessions m,
       command_results = [],
       host_attributes = Some [],
       client = None,
       events = [] \<rparr>"

subsection \<open>execute\<close>

text \<open>
  \<^verbatim>\<open>buf = recv(); while buf: result += buf; buf = recv()\<close>. The loop ends when \<open>recv\<close>
  returns the empty string and need not end at all: \<open>None\<close> is the loop running forever.
\<close>

partial_function (option) recv_loop ::
  "(nat \<Rightarrow> recv_outcome) \<Rightarrow> nat \<Rightarrow> string \<Rightarrow> string \<Rightarrow> (error + string) option" where
  "recv_loop rcv i result buf =
     (if buf \<noteq> [] then
        (case rcv i of
           RecvError \<Rightarrow> Some (Inl SocketError)
         | Data b \<Rightarrow> recv_loop rcv (Suc i) (result @ buf) b)
      else Some (Inr result))"

declare recv_loop.simps [code]

definition sockets_created :: "event list \<Rightarrow> nat" where
  "sockets_created es = length (filter (\<lambda>e. e = EvSocket) es)"

definition log_event :: "event \<Rightarrow> haproxy \<Rightarrow> haproxy" where
  "log_event e self = self\<lparr>events := events self @ [e]\<rparr>"

definition execute :: "peer \<Rightarrow> string \<Rightarrow> bool \<Rightarrow> string action" where
  "execute peer cmd log self =
     (let n = sockets_created (events self);
          c = peer n;
          msg = cmd @ [newline];
          self = log_event EvSocket (self\<lparr>client := Some n\<rparr>);
          self = log_event (EvConnect (socket self)) self
      in if \<not> connect_ok c (socket self) then (Raises SocketError, self)
         else
           let self = log_event (EvSendall msg) self
           in if \<not> sendall_ok c msg then (Raises SocketError, self)
              else
                (case recv c msg 0 of
                   RecvError \<Rightarrow> (Raises SocketError, self)
                 | Data buf \<Rightarrow>
                     (case recv_loop (recv c msg) 1 [] buf of
                        None \<Rightarrow> (Diverges, self)
                      | Some (Inl e) \<Rightarrow> (Raises e, self)
                      | Some (Inr result) \<Rightarrow>
                          let self = (if log then self\<lparr>command_results := strip result\<rparr> else self);
                              self = log_event EvClose self
                          in (Returns result, self))))"

subsection \<open>The member record\<close>

definition attributes :: "string \<rightharpoonup> nat" where
  "attributes = [''pxname'' \<mapsto> 0, ''status'' \<mapsto> 17, ''weight'' \<mapsto> 18]"

definition get_host_attribute :: "string \<Rightarrow> haproxy \<Rightarrow> error + string" where
  "get_host_attribute name self =
     (case host_attributes self of
        None \<Rightarrow> Inl TypeError
      | Some attrs \<Rightarrow>
          (case attributes name of
             None \<Rightarrow> Inl TypeError
           | Some i \<Rightarrow> index attrs i))"

definition is_host_in_maintanence_mode :: "haproxy \<Rightarrow> error + bool" where
  "is_host_in_maintanence_mode self =
     (case get_host_attribute ''status'' self of
        Inl e \<Rightarrow> Inl e
      | Inr status \<Rightarrow> Inr (status = ''MAINT''))"

definition get_backend :: "haproxy \<Rightarrow> error + string" where
  "get_backend self = get_host_attribute ''pxname'' self"

definition get_current_weight :: "haproxy \<Rightarrow> error + string" where
  "get_current_weight self = get_host_attribute ''weight'' self"

definition get_stat_output :: "peer \<Rightarrow> string list action" where
  "get_stat_output peer =
     bnd (execute peer ''show stat'' True)
       (\<lambda>output. ret (py_split newline (strip (lstrip_chars ''# '' output))))"

fun get_host_stat_line :: "string \<Rightarrow> string list \<Rightarrow> error + string list option" where
  "get_host_stat_line h [] = Inr None"
| "get_host_stat_line h (line # stat_output) =
     (let line_parts = py_split (CHR '','') line
      in case index line_parts 1 of
           Inl e \<Rightarrow> Inl e
         | Inr svname \<Rightarrow>
             if svname = h then Inr (Some line_parts)
             else get_host_stat_line h stat_output)"

definition is_weight_changed :: "string option \<Rightarrow> haproxy \<Rightarrow> error + bool" where
  "is_weight_changed w self =
     (case w of
        None \<Rightarrow> Inr False
      | Some wt \<Rightarrow>
          (case get_current_weight self of
             Inl e \<Rightarrow> Inl e
           | Inr current_weight \<Rightarrow>
               if wt = ''100%'' \<and> current_weight = ''1'' then Inr False
               else if wt = ''0%'' \<and> current_weight = ''0'' then Inr False
               else Inr (wt \<noteq> current_weight)))"

subsection \<open>enabled, disabled, act, main\<close>

definition enabled :: "peer \<Rightarrow> bool action" where
  "enabled peer self =
     (let svname = host self;
          pxname = backend self;
          cmd = ''get weight '' @ fmt pxname @ ''/'' @ svname
      in bnd (lift (is_weight_changed (weight self))) (\<lambda>weight_changed.
         bnd (lift is_host_in_maintanence_mode) (\<lambda>status_changed.
           if \<not> weight_changed \<and> \<not> status_changed then
             bnd (execute peer cmd True) (\<lambda>_. ret False)
           else if check_mode (module self) then
             bnd (execute peer cmd True) (\<lambda>_. ret True)
           else
             let cmd = (if weight_changed
                        then cmd @ ''; set weight '' @ fmt pxname @ ''/'' @ svname
                                 @ '' '' @ fmt (weight self)
                        else cmd);
                 cmd = (if status_changed
                        then cmd @ ''; enable server '' @ fmt pxname @ ''/'' @ svname
                        else cmd)
             in bnd (execute peer cmd True) (\<lambda>_. ret True))) self)"

definition disabled :: "peer \<Rightarrow> bool action" where
  "disabled peer self =
     (let svname = host self;
          pxname = backend self;
          cmd = ''get weight '' @ fmt pxname @ ''/'' @ svname
      in bnd (lift is_host_in_maintanence_mode) (\<lambda>in_maintenance.
           if in_maintenance then
             bnd (execute peer cmd True) (\<lambda>_. ret False)
           else if check_mode (module self) then
             bnd (execute peer cmd True) (\<lambda>_. ret True)
           else
             let cmd = cmd @ ''; disable server '' @ fmt pxname @ ''/'' @ svname;
                 cmd = (if truthy (shutdown_sessions self)
                        then cmd @ ''; shutdown sessions server '' @ fmt pxname @ ''/'' @ svname
                        else cmd)
             in bnd (execute peer cmd True) (\<lambda>_. ret True)) self)"

definition set_host_attributes :: "string list \<Rightarrow> unit action" where
  "set_host_attributes stat_output self =
     (case get_host_stat_line (host self) stat_output of
        Inl e \<Rightarrow> (Raises e, self)
      | Inr line \<Rightarrow> (Returns (), self\<lparr>host_attributes := line\<rparr>))"

definition set_backend :: "unit action" where
  "set_backend self =
     (if backend self = None then
        (case get_backend self of
           Inl e \<Rightarrow> (Raises e, self)
         | Inr pxname \<Rightarrow> (Returns (), self\<lparr>backend := Some pxname\<rparr>))
      else (Returns (), self))"

definition act_state :: "peer \<Rightarrow> bool action" where
  "act_state peer self =
     (if state self = ''enabled'' then enabled peer self
      else if state self = ''disabled'' then disabled peer self
      else raise (FailJson (''unknown state specified: '' @ [CHR 0x27] @ state self
                              @ [CHR 0x27])) self)"

definition act :: "peer \<Rightarrow> exit action" where
  "act peer =
     bnd (get_stat_output peer) (\<lambda>stat_output.
     bnd (set_host_attributes stat_output) (\<lambda>_.
     bnd set_backend (\<lambda>_.
     bnd (act_state peer) (\<lambda>changed self.
       (Returns (ExitJson (command_results self) changed), self)))))"

text \<open>
  Modelled from the spec: \<open>AnsibleModule\<close> is the Ansible library's class, not part of this
  repository. Of its argument checking only the \<open>choices\<close> of \<open>state\<close> is modelled: a value
  outside \<open>ACTION_CHOICES\<close> is a usage error reported before anything else runs.
  (\<^verbatim>\<open>if not socket\<close> tests the imported module object, which is always true.)
\<close>

definition main :: "peer \<Rightarrow> ansible_module \<Rightarrow> exit outcome \<times> event list" where
  "main peer m =
     (if p_state m \<notin> set ACTION_CHOICES then (Raises (UsageError (p_state m)), [])
      else (case act peer (HAProxy_init m) of (r, self) \<Rightarrow> (r, events self)))"

section \<open>Observations on the log of socket calls\<close>

fun sent :: "event list \<Rightarrow> string list" where
  "sent [] = []"
| "sent (EvSendall d # es) = d # sent es"
| "sent (e # es) = sent es"

text \<open>A round trip is a complete cycle: create, connect, send, (receive,) close.\<close>

fun round_trips :: "event list \<Rightarrow> nat" where
  "round_trips (EvSocket # EvConnect p # EvSendall d # EvClose # es) = Suc (round_trips es)"
| "round_trips (e # es) = round_trips es"
| "round_trips [] = 0"

definition open_sockets :: "event list \<Rightarrow> int" where
  "open_sockets es =
     int (length (filter (\<lambda>e. e = EvSocket) es)) - int (length (filter (\<lambda>e. e = EvClose) es))"

text \<open>
  What a test asks of a peer: \<open>delivers rcv i cs\<close> says that from call \<open>i\<close> on, \<open>recv\<close>
  returns the non-empty chunks \<open>cs\<close> and then end of stream; \<open>replies c p msg cs\<close> that the
  connection accepts the connect to \<open>p\<close> and the message and answers with \<open>cs\<close>.
\<close>

fun delivers :: "(nat \<Rightarrow> recv_outcome) \<Rightarrow> nat \<Rightarrow> string list \<Rightarrow> bool" where
  "delivers rcv i [] = (rcv i = Data [])"
| "delivers rcv i (c # cs) = (c \<noteq> [] \<and> rcv i = Data c \<and> delivers rcv (Suc i) cs)"

definition exchange :: "string \<Rightarrow> string \<Rightarrow> event list" where
  "exchange p cmd = [EvSocket, EvConnect p, EvSendall (cmd @ [newline]), EvClose]"

definition replies :: "conn \<Rightarrow> string \<Rightarrow> string \<Rightarrow> string list \<Rightarrow> bool" where
  "replies c p msg cs = (connect_ok c p \<and> sendall_ok c msg \<and> delivers (recv c msg) 0 cs)"


section \<open>The specification's reading of the engine\<close>

text \<open>
  The definitions of this section follow the words of the specification (its sections 4.2
  to 4.4); the theorems compare them with the code above.
\<close>

text \<open>WeightPolicy: absent, equal, exception A, exception B, otherwise.\<close>

definition isChangeNeeded :: "string option \<Rightarrow> string \<Rightarrow> bool" where
  "isChangeNeeded requested current =
     (case requested of
        None \<Rightarrow> False
      | Some r \<Rightarrow>
          if r = current then False
          else if r = ''100%'' \<and> current = ''1'' then False
          else if r = ''0%'' \<and> current = ''0'' then False
          else True)"

text \<open>The response of the statistics query, cut into lines.\<close>

definition stat_lines :: "string \<Rightarrow> string list" where
  "stat_lines output = py_split newline (strip (lstrip_chars ''# '' output))"

text \<open>The pool name: the one supplied, else position 0 of the member record.\<close>

definition spec_pool :: "ansible_module \<Rightarrow> string list \<Rightarrow> string" where
  "spec_pool m attrs = (case p_backend m of None \<Rightarrow> attrs ! 0 | Some b \<Rightarrow> b)"

definition inMaintenance :: "string list \<Rightarrow> bool" where
  "inMaintenance attrs = (attrs ! 17 = ''MAINT'')"

definition weightChangeNeeded :: "ansible_module \<Rightarrow> string list \<Rightarrow> bool" where
  "weightChangeNeeded m attrs = isChangeNeeded (p_weight m) (attrs ! 18)"

definition spec_query :: "string \<Rightarrow> string \<Rightarrow> string" where
  "spec_query P H = ''get weight '' @ P @ ''/'' @ H"

text \<open>
  The composite of \<open>enabled\<close>: the query, then ``set weight'' if the weight must change,
  then ``enable server'' if the member is in maintenance.
\<close>

definition spec_enabled_command ::
  "string \<Rightarrow> string \<Rightarrow> string option \<Rightarrow> bool \<Rightarrow> bool \<Rightarrow> string" where
  "spec_enabled_command P H w wc mt =
     spec_query P H
     @ (if wc then ''; set weight '' @ P @ ''/'' @ H @ '' '' @ fmt w else [])
     @ (if mt then ''; enable server '' @ P @ ''/'' @ H else [])"

text \<open>
  The composite of \<open>disabled\<close>: the query, then ``disable server'', then ``shutdown
  sessions server'' if the flag is set.
\<close>

definition spec_disabled_command :: "string \<Rightarrow> string \<Rightarrow> bool \<Rightarrow> string" where
  "spec_disabled_command P H shutdown =
     spec_query P H
     @ ''; disable server '' @ P @ ''/'' @ H
     @ (if shutdown then ''; shutdown sessions server '' @ P @ ''/'' @ H else [])"

text \<open>
  What a run sends after the statistics query, and what it reports: a dry run sends the
  query alone, and so does a run that finds nothing to change.
\<close>

definition spec_command :: "ansible_module \<Rightarrow> string list \<Rightarrow> string" where
  "spec_command m attrs =
     (if p_state m = ''enabled'' then
        (if check_mode m then spec_query (spec_pool m attrs) (p_host m)
         else spec_enabled_command (spec_pool m attrs) (p_host m) (p_weight m)
                (weightChangeNeeded m attrs) (inMaintenance attrs))
      else
        (if check_mode m \<or> inMaintenance attrs then spec_query (spec_pool m attrs) (p_host m)
         else spec_disabled_command (spec_pool m attrs) (p_host m)
                (truthy (p_shutdown_sessions m))))"

definition spec_changed :: "ansible_module \<Rightarrow> string list \<Rightarrow> bool" where
  "spec_changed m attrs =
     (if p_state m = ''enabled'' then weightChangeNeeded m attrs \<or> inMaintenance attrs
      else \<not> inMaintenance attrs)"

text \<open>The fields a run reads are in the record: the status, and the weight if one is requested.\<close>

definition fields_present :: "ansible_module \<Rightarrow> string list \<Rightarrow> bool" where
  "fields_present m attrs =
     (if p_state m = ''enabled'' \<and> p_weight m \<noteq> None then 18 < length attrs
      else 17 < length attrs)"

text \<open>The object once the statistics were read and the member record found.\<close>

definition loaded :: "ansible_module \<Rightarrow> string \<Rightarrow> string list \<Rightarrow> haproxy" where
  "loaded m output attrs =
     (HAProxy_init m)
       \<lparr> backend := Some (spec_pool m attrs),
         command_results := strip output,
         host_attributes := Some attrs,
         client := Some 0,
         events := exchange (p_socket m) ''show stat'' \<rparr>"

subsection \<open>The commands of a message\<close>

text \<open>
  The administrative protocol takes several commands on one line, separated by semicolons.
  \<open>commands_of\<close> lists the commands a message carries, and every command other than the
  two queries of the module counts as mutating.
\<close>

definition commands_of :: "string \<Rightarrow> string list" where
  "commands_of msg =
     filter (\<lambda>c. c \<noteq> [])
       (map (lstrip_chars '' '')
          (concat (map (py_split (CHR '';'')) (py_split newline msg))))"

definition is_query :: "string \<Rightarrow> bool" where
  "is_query c = (take 9 c = ''show stat'' \<or> take 11 c = ''get weight '')"

definition mutating_commands :: "event list \<Rightarrow> string list" where
  "mutating_commands es = filter (\<lambda>c. \<not> is_query c) (concat (map commands_of (sent es)))"

subsection \<open>Two runs in succession\<close>

text \<open>
  The load balancer is not part of the repository. Its side of two successive \<open>enabled\<close>
  runs is modelled from what the module's own documentation says of it: the statistics
  show the weight of a member as a number; ``set weight'' takes an absolute weight up to
  256, or a percentage up to 100 of the initially configured weight (the \<open>weight\<close> option
  in \<open>DOCUMENTATION\<close>), and anything else is refused; ``enable server'' marks the server UP
  (the docstring of \<open>enabled\<close>). \<open>enabled_cmds\<close> are the commands of the composite,
  \<open>render\<close> writes them as the module does, and \<open>lb_report\<close> is the record the
  statistics show for the member afterwards. \<open>settling_weight\<close> are the requested weights
  the load balancer shows back in a form the weight policy accepts.
\<close>

subsection \<open>Decimal numbers\<close>


















section \<open>Test data\<close>

text \<open>
  A statistics dump with the member \<open>web1\<close> of pool \<open>www\<close>, its record, a peer that
  accepts every connection and answers in one chunk, and the requests of the scenarios.
\<close>

definition stat_dump :: "string \<Rightarrow> string \<Rightarrow> string" where
  "stat_dump status w =
     ''# pxname,svname,qcur,qmax,scur,smax,slim,stot,bin,bout,dreq,dresp,ereq,econ,eresp,wretr,wredis,status,weight\<newline>''
     @ ''www,FRONTEND,,,0,0,2000,0,0,0,0,0,0,,,,,OPEN,\<newline>''
     @ ''www,web1,0,0,0,0,,0,0,0,,0,,0,0,0,0,'' @ status @ '','' @ w @ '',\<newline>''
     @ ''www,BACKEND,0,0,0,0,200,0,0,0,0,0,,0,0,0,0,UP,1,\<newline>\<newline>''"

definition web1_record :: "string \<Rightarrow> string \<Rightarrow> string list" where
  "web1_record status w =
     [''www'', ''web1'', ''0'', ''0'', ''0'', ''0'', [], ''0'', ''0'', ''0'', [], ''0'', [],
      ''0'', ''0'', ''0'', ''0'', status, w, []]"

definition answering :: "string \<Rightarrow> string \<Rightarrow> peer" where
  "answering dump reply n =
     \<lparr> connect_ok = (\<lambda>p. True),
       sendall_ok = (\<lambda>msg. True),
       recv = (\<lambda>msg i. if i = 0 then Data (if msg = ''show stat'' @ [newline] then dump else reply)
                         else Data []) \<rparr>"

definition sock :: string where
  "sock = ''/var/run/haproxy.sock''"

text \<open>
  The requests: A enables \<open>web1\<close> in pool \<open>www\<close> with weight 100%; B enables it with no
  weight; C disables it and shuts its sessions down; D enables \<open>web2\<close>, which no dump
  lists; E disables \<open>web1\<close> with no pool named; F previews the disabling of \<open>web1\<close>
  with a pool name that carries a command. \<open>refusing\<close> is a peer whose socket refuses
  the connect, \<open>weight_reply\<close> is what the load balancer answers to a weight query, and
  the two members are load balancer states, in maintenance with weight 1 and up with
  weight 10.
\<close>

definition scenario_A :: ansible_module where
  "scenario_A =
     \<lparr> p_state = ''enabled'', p_host = ''web1'', p_backend = Some ''www'',
       p_weight = Some ''100%'', p_socket = sock, p_shutdown_sessions = PyBool False,
       check_mode = False \<rparr>"

definition weight_reply :: string where
  "weight_reply = ''1 (initial 1)\<newline>\<newline>''"

definition scenario_C :: ansible_module where
  "scenario_C =
     \<lparr> p_state = ''disabled'', p_host = ''web1'', p_backend = Some ''www'',
       p_weight = None, p_socket = sock, p_shutdown_sessions = PyStr ''true'',
       check_mode = False \<rparr>"

definition scenario_D :: ansible_module where
  "scenario_D =
     \<lparr> p_state = ''enabled'', p_host = ''web2'', p_backend = Some ''www'',
       p_weight = None, p_socket = sock, p_shutdown_sessions = PyBool False,
       check_mode = False \<rparr>"

definition scenario_B :: ansible_module where
  "scenario_B =
     \<lparr> p_state = ''enabled'', p_host = ''web1'', p_backend = Some ''www'',
       p_weight = None, p_socket = sock, p_shutdown_sessions = PyBool False,
       check_mode = False \<rparr>"

definition refusing :: peer where
  "refusing n =
     \<lparr> connect_ok = (\<lambda>p. False),
       sendall_ok = (\<lambda>msg. True),
       recv = (\<lambda>msg i. Data []) \<rparr>"

definition stat_dump_two_pools :: string where
  "stat_dump_two_pools =
     ''# pxname,svname,qcur,qmax,scur,smax,slim,stot,bin,bout,dreq,dresp,ereq,econ,eresp,wretr,wredis,status,weight\<newline>''
     @ ''www,FRONTEND,,,0,0,2000,0,0,0,0,0,0,,,,,OPEN,\<newline>''
     @ ''www,web1,0,0,0,0,,0,0,0,,0,,0,0,0,0,UP,1,\<newline>''
     @ ''www,BACKEND,0,0,0,0,200,0,0,0,0,0,,0,0,0,0,UP,1,\<newline>''
     @ ''api,FRONTEND,,,0,0,2000,0,0,0,0,0,0,,,,,OPEN,\<newline>''
     @ ''api,web1,0,0,0,0,,0,0,0,,0,,0,0,0,0,UP,1,\<newline>''
     @ ''api,BACKEND,0,0,0,0,200,0,0,0,0,0,,0,0,0,0,UP,1,\<newline>\<newline>''"

definition scenario_E :: ansible_module where
  "scenario_E =
     \<lparr> p_state = ''disabled'', p_host = ''web1'', p_backend = None,
       p_weight = None, p_socket = sock, p_shutdown_sessions = PyBool False,
       check_mode = False \<rparr>"

definition scenario_F :: ansible_module where
  "scenario_F =
     \<lparr> p_state = ''disabled'', p_host = ''web1'',
       p_backend = Some ''www/web1; disable server www'',
       p_weight = None, p_socket = sock, p_shutdown_sessions = PyBool False,
       check_mode = True \<rparr>"



section \<open>Basic lemmas\<close>

lemma recv_loop_delivers:
  "buf \<noteq> [] \<Longrightarrow> delivers rcv i cs \<Longrightarrow> recv_loop rcv i acc buf = Some (Inr (acc @ buf @ concat cs))"
proof (induction cs arbitrary: i acc buf)
  case Nil
  then show ?case by (simp add: recv_loop.simps)
next
  case (Cons c cs)
  then show ?case by (simp add: recv_loop.simps)
qed

lemma execute_replies:
  assumes "replies (peer (sockets_created (events self))) (socket self) (cmd @ [newline]) cs"
  shows "execute peer cmd log self =
     (Returns (concat cs),
      self\<lparr>client := Some (sockets_created (events self)),
            command_results := (if log then strip (concat cs) else command_results self),
            events := events self @ exchange (socket self) cmd\<rparr>)"
proof (cases cs)
  case Nil
  with assms show ?thesis
    by (simp add: execute_def replies_def log_event_def Let_def recv_loop.simps exchange_def)
next
  case (Cons c cs')
  with assms have "recv_loop (recv (peer (sockets_created (events self))) (cmd @ [newline])) 1 [] c = Some (Inr ([] @ c @ concat cs'))"
    unfolding replies_def by (intro recv_loop_delivers) auto
  with assms Cons show ?thesis
    by (simp add: execute_def replies_def log_event_def Let_def exchange_def)
qed

lemma bnd_Returns: "m self = (Returns x, self') \<Longrightarrow> bnd m f self = f x self'"
  by (simp add: bnd_def)

lemma attr_status: "host_attributes self = Some attrs \<Longrightarrow> 17 < length attrs \<Longrightarrow>
   is_host_in_maintanence_mode self = Inr (inMaintenance attrs)"
  by (simp add: is_host_in_maintanence_mode_def get_host_attribute_def attributes_def index_def inMaintenance_def)

lemma is_weight_changed_eq:
  "host_attributes self = Some attrs \<Longrightarrow> (w \<noteq> None \<longrightarrow> 18 < length attrs) \<Longrightarrow>
   is_weight_changed w self = Inr (isChangeNeeded w (attrs ! 18))"
  by (auto simp: is_weight_changed_def get_current_weight_def get_host_attribute_def attributes_def 
      index_def isChangeNeeded_def split: option.splits)

lemma enabled_decomp:
  assumes "host_attributes self = Some attrs" and "17 < length attrs"
    and "weight self \<noteq> None \<longrightarrow> 18 < length attrs"
  shows "enabled peer self =
     bnd (execute peer
            (if check_mode (module self) then spec_query (fmt (backend self)) (host self)
             else spec_enabled_command (fmt (backend self)) (host self) (weight self)
                    (isChangeNeeded (weight self) (attrs ! 18)) (inMaintenance attrs)) True)
         (\<lambda>_. ret (isChangeNeeded (weight self) (attrs ! 18) \<or> inMaintenance attrs)) self"
proof -
  have 1: "lift (is_weight_changed (weight self)) self = (Returns (isChangeNeeded (weight self) (attrs ! 18)), self)"
    using assms by (simp add: lift_def is_weight_changed_eq)
  have 2: "lift is_host_in_maintanence_mode self = (Returns (inMaintenance attrs), self)"
    using assms by (simp add: lift_def attr_status)
  show ?thesis
    unfolding enabled_def Let_def
    by (simp add: bnd_Returns[of "lift (is_weight_changed (weight self))", OF 1]
        bnd_Returns[of "lift is_host_in_maintanence_mode", OF 2]
        spec_enabled_command_def spec_query_def)
qed

lemma disabled_decomp:
  assumes "host_attributes self = Some attrs" and "17 < length attrs"
  shows "disabled peer self =
     bnd (execute peer
            (if check_mode (module self) \<or> inMaintenance attrs then spec_query (fmt (backend self)) (host self)
             else spec_disabled_command (fmt (backend self)) (host self) (truthy (shutdown_sessions self))) True)
         (\<lambda>_. ret (\<not> inMaintenance attrs)) self"
proof -
  have 2: "lift is_host_in_maintanence_mode self = (Returns (inMaintenance attrs), self)"
    using assms by (simp add: lift_def attr_status)
  show ?thesis
    unfolding disabled_def Let_def
    by (simp add: bnd_Returns[of "lift is_host_in_maintanence_mode", OF 2]
        spec_disabled_command_def spec_query_def)
qed

lemma sockets_created_exchange: "sockets_created (exchange p c) = 1"
  by (simp add: sockets_created_def exchange_def)

lemma get_host_stat_line_found:
  "get_host_stat_line h ls = Inr (Some attrs) \<Longrightarrow> index attrs 1 = Inr h"
  by (induction ls) (auto simp: Let_def split: sum.splits if_splits)

lemma found_length: "get_host_stat_line h ls = Inr (Some attrs) \<Longrightarrow> 2 \<le> length attrs"
  by (drule get_host_stat_line_found) (auto simp: index_def split: if_splits)

lemma act_load:
  assumes stat: "replies (peer 0) (p_socket m) (''show stat'' @ [newline]) cs0"
    and found: "get_host_stat_line (p_host m) (stat_lines (concat cs0)) = Inr (Some attrs)"
  shows "act peer (HAProxy_init m) =
     bnd (act_state peer)
       (\<lambda>changed self. (Returns (ExitJson (command_results self) changed), self))
       (loaded m (concat cs0) attrs)"
proof -
  define s1 where "s1 = (HAProxy_init m)\<lparr>client := Some 0, command_results := strip (concat cs0),
            events := exchange (p_socket m) ''show stat''\<rparr>"
  have ex: "execute peer ''show stat'' True (HAProxy_init m) = (Returns (concat cs0), s1)"
    using execute_replies[of peer "HAProxy_init m" "''show stat''" cs0 True] stat
    by (simp add: HAProxy_init_def sockets_created_def s1_def)
  have 1: "get_stat_output peer (HAProxy_init m) = (Returns (stat_lines (concat cs0)), s1)"
    by (simp add: get_stat_output_def bnd_Returns[of "execute peer ''show stat'' True", OF ex] ret_def stat_lines_def)
  have 2: "set_host_attributes (stat_lines (concat cs0)) s1 = (Returns (), s1\<lparr>host_attributes := Some attrs\<rparr>)"
    using found by (simp add: set_host_attributes_def s1_def HAProxy_init_def)
  have len: "0 < length attrs" using found_length[OF found] by (cases attrs) auto
  have 3: "set_backend (s1\<lparr>host_attributes := Some attrs\<rparr>) = (Returns (), loaded m (concat cs0) attrs)"
    using len
    by (simp add: set_backend_def get_backend_def get_host_attribute_def attributes_def
        index_def loaded_def spec_pool_def HAProxy_init_def s1_def split: option.splits)
  show ?thesis
    unfolding act_def
    by (simp add: bnd_Returns[of "get_stat_output peer", OF 1]
        bnd_Returns[of "set_host_attributes (stat_lines (concat cs0))", OF 2]
        bnd_Returns[of set_backend, OF 3])
qed

lemma loaded_simps:
  "module (loaded m out attrs) = m"
  "state (loaded m out attrs) = p_state m"
  "host (loaded m out attrs) = p_host m"
  "backend (loaded m out attrs) = Some (spec_pool m attrs)"
  "weight (loaded m out attrs) = p_weight m"
  "socket (loaded m out attrs) = p_socket m"
  "shutdown_sessions (loaded m out attrs) = p_shutdown_sessions m"
  "host_attributes (loaded m out attrs) = Some attrs"
  "events (loaded m out attrs) = exchange (p_socket m) ''show stat''"
  by (simp_all add: loaded_def HAProxy_init_def)

lemma act_enabled_run:
  assumes st: "p_state m = ''enabled''"
    and stat: "replies (peer 0) (p_socket m) (''show stat'' @ [newline]) cs0"
    and found: "get_host_stat_line (p_host m) (stat_lines (concat cs0)) = Inr (Some attrs)"
    and len: "18 < length attrs"
    and cmd: "cmd = (if check_mode m then spec_query (spec_pool m attrs) (p_host m)
                     else spec_enabled_command (spec_pool m attrs) (p_host m) (p_weight m)
                            (weightChangeNeeded m attrs) (inMaintenance attrs))"
    and rep: "replies (peer 1) (p_socket m) (cmd @ [newline]) cs1"
  shows "act peer (HAProxy_init m) =
     (Returns (ExitJson (strip (concat cs1)) (weightChangeNeeded m attrs \<or> inMaintenance attrs)),
      (loaded m (concat cs0) attrs)
        \<lparr> client := Some 1, command_results := strip (concat cs1),
          events := exchange (p_socket m) ''show stat'' @ exchange (p_socket m) cmd \<rparr>)"
proof -
  let ?s = "loaded m (concat cs0) attrs"
  have ex: "execute peer cmd True ?s =
     (Returns (concat cs1), ?s\<lparr>client := Some 1, command_results := strip (concat cs1),
          events := exchange (p_socket m) ''show stat'' @ exchange (p_socket m) cmd \<rparr>)"
    using execute_replies[of peer ?s cmd cs1 True] rep
    by (simp add: loaded_simps sockets_created_exchange)
  have en: "enabled peer ?s = bnd (execute peer cmd True)
      (\<lambda>_. ret (weightChangeNeeded m attrs \<or> inMaintenance attrs)) ?s"
    using enabled_decomp[of ?s attrs peer] len
    by (simp add: loaded_simps cmd fmt_def weightChangeNeeded_def)
  have "enabled peer ?s = (Returns (weightChangeNeeded m attrs \<or> inMaintenance attrs),
      ?s\<lparr>client := Some 1, command_results := strip (concat cs1),
          events := exchange (p_socket m) ''show stat'' @ exchange (p_socket m) cmd \<rparr>)"
    by (simp add: en bnd_Returns[of "execute peer cmd True", OF ex] ret_def)
  then show ?thesis
    by (simp add: act_load[of peer m cs0 attrs, OF stat found] bnd_def act_state_def loaded_simps st)
qed

lemma replies_answering_stat:
  "dump \<noteq> [] \<Longrightarrow> replies (answering dump reply n) p (''show stat'' @ [newline]) [dump]"
  by (simp add: replies_def answering_def)

lemma replies_answering_other:
  "reply \<noteq> [] \<Longrightarrow> msg \<noteq> ''show stat'' @ [newline] \<Longrightarrow> replies (answering dump reply n) p msg [reply]"
  by (simp add: replies_def answering_def)

lemma found_web1:
  "get_host_stat_line ''web1'' (stat_lines (concat [stat_dump ''MAINT'' ''1''])) = Inr (Some (web1_record ''MAINT'' ''1''))"
  by (simp add: stat_lines_def stat_dump_def web1_record_def lstrip_chars_def strip_def whitespace_def newline_def index_def Let_def)

section \<open>Every run of \<open>act\<close>, case by case\<close>

lemma recv_loop_result:
  assumes "recv_loop rcv i acc buf = Some y"
  shows "y = Inl SocketError \<or> (\<exists>result. y = Inr result)"
  using assms
  by (rule recv_loop.raw_induct[rotated 1]) (auto split: if_splits recv_outcome.splits)

lemma execute_cases [case_names ok fail]:
  obtains (ok) result where
      "execute peer cmd log self =
         (Returns result,
          self\<lparr>client := Some (sockets_created (events self)),
                command_results := (if log then strip result else command_results self),
                events := events self @ exchange (socket self) cmd\<rparr>)"
  | (fail) r es where
      "execute peer cmd log self =
         (r, self\<lparr>client := Some (sockets_created (events self)), events := events self @ es\<rparr>)"
      "r = Raises SocketError \<or> r = Diverges"
      "es = [EvSocket, EvConnect (socket self)] \<or>
       es = [EvSocket, EvConnect (socket self), EvSendall (cmd @ [newline])]"
proof -
  let ?c = "peer (sockets_created (events self))"
  let ?msg = "cmd @ [newline]"
  show thesis
  proof (cases "connect_ok ?c (socket self)")
    case False
    then show thesis
      by (intro fail[of "Raises SocketError" "[EvSocket, EvConnect (socket self)]"])
         (simp_all add: execute_def Let_def log_event_def)
  next
    case conn: True
    show thesis
    proof (cases "sendall_ok ?c ?msg")
      case False
      with conn show thesis
        by (intro fail[of "Raises SocketError" "[EvSocket, EvConnect (socket self), EvSendall ?msg]"])
           (simp_all add: execute_def Let_def log_event_def)
    next
      case snd: True
      show thesis
      proof (cases "recv ?c ?msg 0")
        case RecvError
        with conn snd show thesis
          by (intro fail[of "Raises SocketError" "[EvSocket, EvConnect (socket self), EvSendall ?msg]"])
             (simp_all add: execute_def Let_def log_event_def)
      next
        case (Data buf)
        show thesis
        proof (cases "recv_loop (recv ?c ?msg) 1 [] buf")
          case None
          with conn snd Data show thesis
            by (intro fail[of Diverges "[EvSocket, EvConnect (socket self), EvSendall ?msg]"])
               (simp_all add: execute_def Let_def log_event_def)
        next
          case (Some y)
          from recv_loop_result[OF Some] show thesis
          proof
            assume "y = Inl SocketError"
            with conn snd Data Some show thesis
              by (intro fail[of "Raises SocketError" "[EvSocket, EvConnect (socket self), EvSendall ?msg]"])
                 (simp_all add: execute_def Let_def log_event_def)
          next
            assume "\<exists>result. y = Inr result"
            then obtain result where "y = Inr result" ..
            with conn snd Data Some show thesis
              by (intro ok[of result]) (simp add: execute_def Let_def log_event_def exchange_def)
          qed
        qed
      qed
    qed
  qed
qed

lemma lift_cases:
  obtains (raises) e where "f self = Inl e" "lift f self = (Raises e, self)"
  | (returns) x where "f self = Inr x" "lift f self = (Returns x, self)"
  by (cases "f self") (auto simp: lift_def)

lemma status_Inr:
  assumes "is_host_in_maintanence_mode self = Inr mt"
  obtains attrs where "host_attributes self = Some attrs" "17 < length attrs" "mt = inMaintenance attrs"
  using assms
  by (auto simp: is_host_in_maintanence_mode_def get_host_attribute_def attributes_def index_def
      inMaintenance_def split: option.splits sum.splits if_splits)

lemma weight_Inr:
  assumes "is_weight_changed w self = Inr wc" and "host_attributes self = Some attrs"
  shows "wc = isChangeNeeded w (attrs ! 18) \<and> (w \<noteq> None \<longrightarrow> 18 < length attrs)"
  using assms
  by (auto simp: is_weight_changed_def get_current_weight_def get_host_attribute_def attributes_def
      index_def isChangeNeeded_def split: option.splits sum.splits if_splits)

lemma attribute_error:
  "get_host_attribute name self = Inl e \<Longrightarrow> e = TypeError \<or> e = IndexError"
  by (auto simp: get_host_attribute_def index_def split: option.splits if_splits)

lemma status_Inl:
  "is_host_in_maintanence_mode self = Inl e \<Longrightarrow> e = TypeError \<or> e = IndexError"
  by (auto simp: is_host_in_maintanence_mode_def split: sum.splits dest: attribute_error)

lemma weight_Inl:
  "is_weight_changed w self = Inl e \<Longrightarrow> e = TypeError \<or> e = IndexError"
  by (auto simp: is_weight_changed_def get_current_weight_def split: option.splits sum.splits if_splits
      dest: attribute_error)

lemma enabled_cases [case_names raises runs]:
  obtains (raises) e where "enabled peer self = (Raises e, self)" "e = TypeError \<or> e = IndexError"
  | (runs) attrs where "host_attributes self = Some attrs"
      "17 < length attrs" "weight self \<noteq> None \<longrightarrow> 18 < length attrs"
      "enabled peer self =
         bnd (execute peer
            (if check_mode (module self) then spec_query (fmt (backend self)) (host self)
             else spec_enabled_command (fmt (backend self)) (host self) (weight self)
                    (isChangeNeeded (weight self) (attrs ! 18)) (inMaintenance attrs)) True)
         (\<lambda>_. ret (isChangeNeeded (weight self) (attrs ! 18) \<or> inMaintenance attrs)) self"
proof (cases rule: lift_cases[of "is_weight_changed (weight self)" self])
  case (raises e)
  then have "enabled peer self = (Raises e, self)"
    by (simp add: enabled_def Let_def bnd_def)
  then show thesis using weight_Inl[OF raises(1)] by (rule that(1))
next
  case wc: (returns wc)
  show thesis
  proof (cases rule: lift_cases[of is_host_in_maintanence_mode self])
    case (raises e)
    with wc have "enabled peer self = (Raises e, self)"
      by (simp add: enabled_def Let_def bnd_def)
    then show thesis using status_Inl[OF raises(1)] by (rule that(1))
  next
    case mt: (returns mt)
    from mt(1) obtain attrs where a: "host_attributes self = Some attrs" "17 < length attrs"
      "mt = inMaintenance attrs" by (rule status_Inr)
    have w: "wc = isChangeNeeded (weight self) (attrs ! 18)"
      and wl: "weight self \<noteq> None \<longrightarrow> 18 < length attrs"
      using weight_Inr[OF wc(1) a(1)] by simp_all
    have "enabled peer self =
         bnd (execute peer
            (if check_mode (module self) then spec_query (fmt (backend self)) (host self)
             else spec_enabled_command (fmt (backend self)) (host self) (weight self)
                    (isChangeNeeded (weight self) (attrs ! 18)) (inMaintenance attrs)) True)
         (\<lambda>_. ret (isChangeNeeded (weight self) (attrs ! 18) \<or> inMaintenance attrs)) self"
      unfolding enabled_def Let_def
      by (simp add: bnd_Returns[of "lift (is_weight_changed (weight self))", OF wc(2)]
        bnd_Returns[of "lift is_host_in_maintanence_mode", OF mt(2)]
        spec_enabled_command_def spec_query_def a(3)[symmetric] w[symmetric])
    with a(1,2) wl show thesis by (intro that(2)[of attrs])
  qed
qed

lemma disabled_cases [case_names raises runs]:
  obtains (raises) e where "disabled peer self = (Raises e, self)" "e = TypeError \<or> e = IndexError"
  | (runs) attrs where "host_attributes self = Some attrs"
      "17 < length attrs"
      "disabled peer self =
         bnd (execute peer
            (if check_mode (module self) \<or> inMaintenance attrs
             then spec_query (fmt (backend self)) (host self)
             else spec_disabled_command (fmt (backend self)) (host self) (truthy (shutdown_sessions self))) True)
         (\<lambda>_. ret (\<not> inMaintenance attrs)) self"
proof (cases rule: lift_cases[of is_host_in_maintanence_mode self])
  case (raises e)
  then have "disabled peer self = (Raises e, self)"
    by (simp add: disabled_def Let_def bnd_def)
  then show thesis using status_Inl[OF raises(1)] by (rule that(1))
next
  case mt: (returns mt)
  from mt(1) obtain attrs where a: "host_attributes self = Some attrs" "17 < length attrs"
    "mt = inMaintenance attrs" by (rule status_Inr)
  have "disabled peer self =
         bnd (execute peer
            (if check_mode (module self) \<or> inMaintenance attrs
             then spec_query (fmt (backend self)) (host self)
             else spec_disabled_command (fmt (backend self)) (host self) (truthy (shutdown_sessions self))) True)
         (\<lambda>_. ret (\<not> inMaintenance attrs)) self"
    unfolding disabled_def Let_def
    by (simp add: bnd_Returns[of "lift is_host_in_maintanence_mode", OF mt(2)]
        spec_disabled_command_def spec_query_def a(3)[symmetric])
  with a(1,2) show thesis by (intro that(2)[of attrs])
qed

lemma execute_fst_cong:
  assumes "sockets_created (events s) = sockets_created (events s')" and "socket s = socket s'"
  shows "fst (execute peer cmd log s) = fst (execute peer cmd log' s')"
  using assms
  by (simp add: execute_def Let_def log_event_def split: recv_outcome.splits option.splits sum.splits)

lemma bnd_execute_cases [case_names ok fail]:
  obtains (ok) result where
      "fst (execute peer cmd log self) = Returns result"
      "bnd (execute peer cmd log) (\<lambda>_. ret b) self =
         (Returns b,
          self\<lparr>client := Some (sockets_created (events self)),
                command_results := (if log then strip result else command_results self),
                events := events self @ exchange (socket self) cmd\<rparr>)"
  | (fail) r es where
      "bnd (execute peer cmd log) (\<lambda>_. ret b) self =
         (r, self\<lparr>client := Some (sockets_created (events self)), events := events self @ es\<rparr>)"
      "r = Raises SocketError \<and> fst (execute peer cmd log self) = Raises SocketError
       \<or> r = Diverges \<and> fst (execute peer cmd log self) = Diverges"
      "es = [EvSocket, EvConnect (socket self)] \<or>
       es = [EvSocket, EvConnect (socket self), EvSendall (cmd @ [newline])]"
proof (cases rule: execute_cases[of peer cmd log self])
  case (ok result)
  then show ?thesis by (intro that(1)[of result]) (simp_all add: bnd_def ret_def)
next
  case (fail r es)
  then show ?thesis
    by (intro that(2)[of "case r of Raises e \<Rightarrow> Raises e | _ \<Rightarrow> Diverges" es]) (auto simp: bnd_def)
qed

lemma act_state_loaded_cases [case_names raised cmd_fail finished]:
  fixes peer m out attrs
  defines "s \<equiv> loaded m out attrs"
  obtains (raised) e where "act_state peer s = (Raises e, s)" "e \<noteq> SocketError"
  | (cmd_fail) r es where
      "p_state m = ''enabled'' \<or> p_state m = ''disabled''"
      "fields_present m attrs"
      "act_state peer s = (r, s\<lparr>client := Some 1, events := events s @ es\<rparr>)"
      "r = Raises SocketError \<and> fst (execute peer (spec_command m attrs) True s) = Raises SocketError
       \<or> r = Diverges \<and> fst (execute peer (spec_command m attrs) True s) = Diverges"
      "es = [EvSocket, EvConnect (p_socket m)] \<or>
       es = [EvSocket, EvConnect (p_socket m), EvSendall (spec_command m attrs @ [newline])]"
  | (finished) result where
      "p_state m = ''enabled'' \<or> p_state m = ''disabled''"
      "fields_present m attrs"
      "fst (execute peer (spec_command m attrs) True s) = Returns result"
      "act_state peer s =
         (Returns (spec_changed m attrs),
          s\<lparr>client := Some 1, command_results := strip result,
            events := events s @ exchange (p_socket m) (spec_command m attrs)\<rparr>)"
proof -
  have sc: "sockets_created (events s) = 1"
    by (simp add: s_def loaded_simps sockets_created_exchange)
  consider (en) "p_state m = ''enabled''" | (dis) "p_state m \<noteq> ''enabled''" "p_state m = ''disabled''"
    | (unk) "p_state m \<noteq> ''enabled''" "p_state m \<noteq> ''disabled''" by blast
  then show thesis
  proof cases
    case en
    then have as: "act_state peer s = enabled peer s"
      by (simp add: act_state_def s_def loaded_simps)
    show thesis
    proof (cases rule: enabled_cases[of peer s])
      case (raises e)
      then show thesis by (intro that(1)[of e]) (auto simp: as)
    next
      case (runs attrs')
      then have eq: "attrs' = attrs" by (simp add: s_def loaded_simps)
      have fp: "fields_present m attrs"
        using runs(2,3) en by (simp add: eq fields_present_def s_def loaded_simps)
      have cmd: "(if check_mode (module s) then spec_query (fmt (backend s)) (host s)
             else spec_enabled_command (fmt (backend s)) (host s) (weight s)
                    (isChangeNeeded (weight s) (attrs ! 18)) (inMaintenance attrs)) = spec_command m attrs"
        using en by (simp add: s_def loaded_simps spec_command_def fmt_def weightChangeNeeded_def)
      have ch: "(isChangeNeeded (weight s) (attrs ! 18) \<or> inMaintenance attrs) = spec_changed m attrs"
        using en by (simp add: s_def loaded_simps spec_changed_def weightChangeNeeded_def)
      have run: "act_state peer s = bnd (execute peer (spec_command m attrs) True)
           (\<lambda>_. ret (spec_changed m attrs)) s"
        unfolding as using runs(4)[unfolded eq cmd ch] .
      show thesis
      proof (cases rule: bnd_execute_cases[of peer "spec_command m attrs" True s "spec_changed m attrs"])
        case (ok result)
        show ?thesis
          using en fp ok by (intro that(3)[of result]) (simp_all add: run sc, simp_all add: s_def loaded_simps)
      next
        case (fail r es)
        show ?thesis
          using en fp fail by (intro that(2)[of r es]) (simp_all add: run sc, simp_all add: s_def loaded_simps)
      qed
    qed
  next
    case dis
    then have as: "act_state peer s = disabled peer s"
      by (simp add: act_state_def s_def loaded_simps)
    show thesis
    proof (cases rule: disabled_cases[of peer s])
      case (raises e)
      then show thesis by (intro that(1)[of e]) (auto simp: as)
    next
      case (runs attrs')
      then have eq: "attrs' = attrs" by (simp add: s_def loaded_simps)
      have fp: "fields_present m attrs"
        using runs(2) dis by (simp add: eq fields_present_def)
      have cmd: "(if check_mode (module s) \<or> inMaintenance attrs
             then spec_query (fmt (backend s)) (host s)
             else spec_disabled_command (fmt (backend s)) (host s) (truthy (shutdown_sessions s)))
              = spec_command m attrs"
        using dis by (simp add: s_def loaded_simps spec_command_def fmt_def)
      have ch: "(\<not> inMaintenance attrs) = spec_changed m attrs"
        using dis by (simp add: spec_changed_def)
      have run: "act_state peer s = bnd (execute peer (spec_command m attrs) True)
           (\<lambda>_. ret (spec_changed m attrs)) s"
        unfolding as using runs(3)[unfolded eq cmd ch] .
      show thesis
      proof (cases rule: bnd_execute_cases[of peer "spec_command m attrs" True s "spec_changed m attrs"])
        case (ok result)
        show ?thesis
          using dis fp ok by (intro that(3)[of result]) (simp_all add: run sc, simp_all add: s_def loaded_simps)
      next
        case (fail r es)
        show ?thesis
          using dis fp fail by (intro that(2)[of r es]) (simp_all add: run sc, simp_all add: s_def loaded_simps)
      qed
    qed
  next
    case unk
    then have "act_state peer s = (Raises (FailJson (''unknown state specified: '' @ [CHR 0x27] @ p_state m @ [CHR 0x27])), s)"
      by (simp add: act_state_def s_def loaded_simps raise_def)
    then show thesis by (rule that(1)) simp
  qed
qed

lemma lookup_error: "get_host_stat_line h ls = Inl e \<Longrightarrow> e = IndexError"
  by (induction ls) (auto simp: Let_def index_def split: sum.splits if_splits)

lemma enabled_absent:
  "host_attributes self = None \<Longrightarrow> enabled peer self = (Raises TypeError, self)"
  by (cases "weight self")
     (simp_all add: enabled_def Let_def bnd_def lift_def is_weight_changed_def
        is_host_in_maintanence_mode_def get_current_weight_def get_host_attribute_def)

lemma disabled_absent:
  "host_attributes self = None \<Longrightarrow> disabled peer self = (Raises TypeError, self)"
  by (simp add: disabled_def Let_def bnd_def lift_def is_host_in_maintanence_mode_def
        get_host_attribute_def)

lemma act_state_absent:
  "host_attributes self = None \<Longrightarrow>
   act_state peer self =
     (Raises (if state self = ''enabled'' \<or> state self = ''disabled'' then TypeError
              else FailJson (''unknown state specified: '' @ [CHR 0x27] @ state self @ [CHR 0x27])),
      self)"
  by (simp add: act_state_def enabled_absent disabled_absent raise_def)

lemma set_backend_absent:
  "host_attributes self = None \<Longrightarrow>
   set_backend self = (if backend self = None then (Raises TypeError, self) else (Returns (), self))"
  by (simp add: set_backend_def get_backend_def get_host_attribute_def)

lemma act_cases [case_names stat_fail raised cmd_fail finished]:
  obtains (stat_fail) r es where
      "act peer (HAProxy_init m) = (r, (HAProxy_init m)\<lparr>client := Some 0, events := es\<rparr>)"
      "r = Raises SocketError \<or> r = Diverges"
      "es = [EvSocket, EvConnect (p_socket m)] \<or>
       es = [EvSocket, EvConnect (p_socket m), EvSendall (''show stat'' @ [newline])]"
  | (raised) e s where
      "act peer (HAProxy_init m) = (Raises e, s)"
      "e \<noteq> SocketError"
      "events s = exchange (p_socket m) ''show stat''"
  | (cmd_fail) out attrs r es where
      "fst (execute peer ''show stat'' True (HAProxy_init m)) = Returns out"
      "get_host_stat_line (p_host m) (stat_lines out) = Inr (Some attrs)"
      "p_state m = ''enabled'' \<or> p_state m = ''disabled''"
      "fields_present m attrs"
      "act peer (HAProxy_init m) =
         (r, (loaded m out attrs)
               \<lparr>client := Some 1, events := exchange (p_socket m) ''show stat'' @ es\<rparr>)"
      "r = Raises SocketError
           \<and> fst (execute peer (spec_command m attrs) True (loaded m out attrs)) = Raises SocketError
       \<or> r = Diverges
           \<and> fst (execute peer (spec_command m attrs) True (loaded m out attrs)) = Diverges"
      "es = [EvSocket, EvConnect (p_socket m)] \<or>
       es = [EvSocket, EvConnect (p_socket m), EvSendall (spec_command m attrs @ [newline])]"
  | (finished) out attrs result where
      "fst (execute peer ''show stat'' True (HAProxy_init m)) = Returns out"
      "get_host_stat_line (p_host m) (stat_lines out) = Inr (Some attrs)"
      "p_state m = ''enabled'' \<or> p_state m = ''disabled''"
      "fields_present m attrs"
      "fst (execute peer (spec_command m attrs) True (loaded m out attrs)) = Returns result"
      "act peer (HAProxy_init m) =
         (Returns (ExitJson (strip result) (spec_changed m attrs)),
          (loaded m out attrs)
            \<lparr>client := Some 1, command_results := strip result,
              events := exchange (p_socket m) ''show stat''
                        @ exchange (p_socket m) (spec_command m attrs)\<rparr>)"
proof (cases rule: execute_cases[of peer "''show stat''" True "HAProxy_init m"])
  case (fail r es)
  have "act peer (HAProxy_init m) =
      (case r of Raises e \<Rightarrow> Raises e | _ \<Rightarrow> Diverges, (HAProxy_init m)\<lparr>client := Some 0, events := es\<rparr>)"
    using fail(1,2)
    by (auto simp: act_def get_stat_output_def bnd_def HAProxy_init_def sockets_created_def)
  with fail(2,3) show thesis
    by (intro that(1)[of "case r of Raises e \<Rightarrow> Raises e | _ \<Rightarrow> Diverges" es])
       (auto simp: HAProxy_init_def)
next
  case (ok out)
  define s1 where "s1 = (HAProxy_init m)\<lparr>client := Some 0, command_results := strip out,
            events := exchange (p_socket m) ''show stat''\<rparr>"
  have ex: "execute peer ''show stat'' True (HAProxy_init m) = (Returns out, s1)"
    using ok by (simp add: HAProxy_init_def sockets_created_def s1_def)
  have 1: "get_stat_output peer (HAProxy_init m) = (Returns (stat_lines out), s1)"
    by (simp add: get_stat_output_def bnd_Returns[of "execute peer ''show stat'' True", OF ex]
        ret_def stat_lines_def)
  have act1: "act peer (HAProxy_init m) =
     bnd (set_host_attributes (stat_lines out)) (\<lambda>_.
     bnd set_backend (\<lambda>_.
     bnd (act_state peer) (\<lambda>changed self.
       (Returns (ExitJson (command_results self) changed), self)))) s1"
    unfolding act_def by (simp add: bnd_Returns[of "get_stat_output peer", OF 1])
  have ev1: "events s1 = exchange (p_socket m) ''show stat''"
    by (simp add: s1_def)
  show thesis
  proof (cases "get_host_stat_line (p_host m) (stat_lines out)")
    case (Inl e)
    then have "set_host_attributes (stat_lines out) s1 = (Raises e, s1)"
      by (simp add: set_host_attributes_def s1_def HAProxy_init_def)
    then have "act peer (HAProxy_init m) = (Raises e, s1)"
      by (simp add: act1 bnd_def)
    moreover have "e \<noteq> SocketError"
      using lookup_error[OF Inl] by simp
    ultimately show thesis using ev1 by (rule that(2))
  next
    case (Inr line)
    have 2: "set_host_attributes (stat_lines out) s1 = (Returns (), s1\<lparr>host_attributes := line\<rparr>)"
      using Inr by (simp add: set_host_attributes_def s1_def HAProxy_init_def)
    have act2: "act peer (HAProxy_init m) =
       bnd set_backend (\<lambda>_.
       bnd (act_state peer) (\<lambda>changed self.
         (Returns (ExitJson (command_results self) changed), self))) (s1\<lparr>host_attributes := line\<rparr>)"
      by (simp add: act1 bnd_Returns[of "set_host_attributes (stat_lines out)", OF 2])
    show thesis
    proof (cases line)
      case None
      let ?s2 = "s1\<lparr>host_attributes := None\<rparr>"
      have "\<exists>e. act peer (HAProxy_init m) = (Raises e, ?s2) \<and> e \<noteq> SocketError"
        using act_state_absent[of ?s2 peer] set_backend_absent[of ?s2]
        by (auto simp: act2 None bnd_def)
      then obtain e where "act peer (HAProxy_init m) = (Raises e, ?s2)" "e \<noteq> SocketError"
        by blast
      then show thesis by (rule that(2)) (simp add: ev1)
    next
      case (Some attrs)
      have found: "get_host_stat_line (p_host m) (stat_lines out) = Inr (Some attrs)"
        using Inr Some by simp
      have len: "0 < length attrs" using found_length[OF found] by (cases attrs) auto
      have 3: "set_backend (s1\<lparr>host_attributes := Some attrs\<rparr>) = (Returns (), loaded m out attrs)"
        using len
        by (simp add: set_backend_def get_backend_def get_host_attribute_def attributes_def
            index_def loaded_def spec_pool_def HAProxy_init_def s1_def split: option.splits)
      have act3: "act peer (HAProxy_init m) =
         bnd (act_state peer) (\<lambda>changed self.
           (Returns (ExitJson (command_results self) changed), self)) (loaded m out attrs)"
        by (simp add: act2 Some bnd_Returns[of set_backend, OF 3])
      have fst1: "fst (execute peer ''show stat'' True (HAProxy_init m)) = Returns out"
        by (simp add: ex)
      show thesis
      proof (cases rule: act_state_loaded_cases[of peer m out attrs])
        case (raised e)
        then have "act peer (HAProxy_init m) = (Raises e, loaded m out attrs)"
          by (simp add: act3 bnd_def)
        then show thesis using raised(2) by (rule that(2)) (simp add: loaded_simps)
      next
        case (cmd_fail r es)
        have "act peer (HAProxy_init m) =
          (case r of Raises e \<Rightarrow> Raises e | _ \<Rightarrow> Diverges,
           (loaded m out attrs)\<lparr>client := Some 1, events := exchange (p_socket m) ''show stat'' @ es\<rparr>)"
          using cmd_fail(3,4) by (auto simp: act3 bnd_def loaded_simps)
        with fst1 found cmd_fail(1,2,4,5) show thesis
          by (intro that(3)[of out attrs "case r of Raises e \<Rightarrow> Raises e | _ \<Rightarrow> Diverges" es]) auto
      next
        case (finished result)
        have "act peer (HAProxy_init m) =
         (Returns (ExitJson (strip result) (spec_changed m attrs)),
          (loaded m out attrs)
            \<lparr>client := Some 1, command_results := strip result,
              events := exchange (p_socket m) ''show stat''
                        @ exchange (p_socket m) (spec_command m attrs)\<rparr>)"
          using finished(4) by (simp add: act3 bnd_def loaded_simps)
        with fst1 found finished(1,2,3) show thesis
          by (intro that(4)[of out attrs result])
      qed
    qed
  qed
qed

section \<open>Runs against the test peer\<close>

lemma act_disabled_run:
  assumes st: "p_state m = ''disabled''"
    and stat: "replies (peer 0) (p_socket m) (''show stat'' @ [newline]) cs0"
    and found: "get_host_stat_line (p_host m) (stat_lines (concat cs0)) = Inr (Some attrs)"
    and len: "17 < length attrs"
    and cmd: "cmd = (if check_mode m \<or> inMaintenance attrs
                     then spec_query (spec_pool m attrs) (p_host m)
                     else spec_disabled_command (spec_pool m attrs) (p_host m)
                            (truthy (p_shutdown_sessions m)))"
    and rep: "replies (peer 1) (p_socket m) (cmd @ [newline]) cs1"
  shows "act peer (HAProxy_init m) =
     (Returns (ExitJson (strip (concat cs1)) (\<not> inMaintenance attrs)),
      (loaded m (concat cs0) attrs)
        \<lparr> client := Some 1, command_results := strip (concat cs1),
          events := exchange (p_socket m) ''show stat'' @ exchange (p_socket m) cmd \<rparr>)"
proof -
  let ?s = "loaded m (concat cs0) attrs"
  have ex: "execute peer cmd True ?s =
     (Returns (concat cs1), ?s\<lparr>client := Some 1, command_results := strip (concat cs1),
          events := exchange (p_socket m) ''show stat'' @ exchange (p_socket m) cmd \<rparr>)"
    using execute_replies[of peer ?s cmd cs1 True] rep
    by (simp add: loaded_simps sockets_created_exchange)
  have en: "disabled peer ?s = bnd (execute peer cmd True) (\<lambda>_. ret (\<not> inMaintenance attrs)) ?s"
    using disabled_decomp[of ?s attrs peer] len
    by (simp add: loaded_simps cmd fmt_def)
  have "disabled peer ?s = (Returns (\<not> inMaintenance attrs),
      ?s\<lparr>client := Some 1, command_results := strip (concat cs1),
          events := exchange (p_socket m) ''show stat'' @ exchange (p_socket m) cmd \<rparr>)"
    by (simp add: en bnd_Returns[of "execute peer cmd True", OF ex] ret_def)
  then show ?thesis
    by (simp add: act_load[of peer m cs0 attrs, OF stat found] bnd_def act_state_def loaded_simps st)
qed

lemma found_web1_up:
  "get_host_stat_line ''web1'' (stat_lines (concat [stat_dump ''UP'' ''1''])) = Inr (Some (web1_record ''UP'' ''1''))"
  by (simp add: stat_lines_def stat_dump_def web1_record_def lstrip_chars_def strip_def whitespace_def newline_def index_def Let_def)

lemma strip_weight_reply: "strip weight_reply = ''1 (initial 1)''"
  by (simp add: weight_reply_def strip_def lstrip_chars_def whitespace_def)

lemma spec_command_not_stat: "spec_command m attrs @ [newline] \<noteq> ''show stat'' @ [newline]"
  by (simp add: spec_command_def spec_query_def spec_enabled_command_def spec_disabled_command_def)

lemma answering_run:
  assumes st: "p_state m = ''enabled'' \<and> 18 < length attrs \<or> p_state m = ''disabled'' \<and> 17 < length attrs"
    and found: "get_host_stat_line (p_host m) (stat_lines dump) = Inr (Some attrs)"
    and ne: "dump \<noteq> []" "reply \<noteq> []"
  shows "act (answering dump reply) (HAProxy_init m) =
     (Returns (ExitJson (strip reply) (spec_changed m attrs)),
      (loaded m dump attrs)
        \<lparr> client := Some 1, command_results := strip reply,
          events := exchange (p_socket m) ''show stat''
                    @ exchange (p_socket m) (spec_command m attrs) \<rparr>)"
proof -
  let ?peer = "answering dump reply"
  have 2: "replies (?peer 0) (p_socket m) (''show stat'' @ [newline]) [dump]"
    using ne(1) by (rule replies_answering_stat)
  have 3: "get_host_stat_line (p_host m) (stat_lines (concat [dump])) = Inr (Some attrs)"
    using found by simp
  have 6: "replies (?peer 1) (p_socket m) (spec_command m attrs @ [newline]) [reply]"
    using ne(2) spec_command_not_stat by (rule replies_answering_other)
  from st show ?thesis
  proof
    assume a: "p_state m = ''enabled'' \<and> 18 < length attrs"
    then have 1: "p_state m = ''enabled''" and 4: "18 < length attrs" by simp_all
    have 5: "spec_command m attrs = (if check_mode m then spec_query (spec_pool m attrs) (p_host m)
                     else spec_enabled_command (spec_pool m attrs) (p_host m) (p_weight m)
                            (weightChangeNeeded m attrs) (inMaintenance attrs))"
      using 1 by (simp add: spec_command_def)
    show ?thesis
      using act_enabled_run[of m ?peer "[dump]" attrs "spec_command m attrs" "[reply]", OF 1 2 3 4 5 6] 1
      by (simp add: spec_changed_def)
  next
    assume a: "p_state m = ''disabled'' \<and> 17 < length attrs"
    then have 1: "p_state m = ''disabled''" and 4: "17 < length attrs" by simp_all
    have 5: "spec_command m attrs = (if check_mode m \<or> inMaintenance attrs
                     then spec_query (spec_pool m attrs) (p_host m)
                     else spec_disabled_command (spec_pool m attrs) (p_host m)
                            (truthy (p_shutdown_sessions m)))"
      using 1 by (simp add: spec_command_def)
    show ?thesis
      using act_disabled_run[of m ?peer "[dump]" attrs "spec_command m attrs" "[reply]", OF 1 2 3 4 5 6] 1
      by (simp add: spec_changed_def)
  qed
qed

lemma web1_record_simps:
  "length (web1_record st w) = 20"
  "web1_record st w ! 0 = ''www''"
  "web1_record st w ! 17 = st"
  "web1_record st w ! 18 = w"
  by (simp_all add: web1_record_def)

lemma dumps_nonempty: "stat_dump st w \<noteq> []" "weight_reply \<noteq> []"
  by (simp_all add: stat_dump_def weight_reply_def)

lemma found_web1': "get_host_stat_line ''web1'' (stat_lines (stat_dump ''MAINT'' ''1'')) = Inr (Some (web1_record ''MAINT'' ''1''))"
  using found_web1 by simp

lemma found_web1_up': "get_host_stat_line ''web1'' (stat_lines (stat_dump ''UP'' ''1'')) = Inr (Some (web1_record ''UP'' ''1''))"
  using found_web1_up by simp

lemma lookup_none_iff:
  "get_host_stat_line h ls = Inr None \<longleftrightarrow>
   (\<forall>l \<in> set ls. \<exists>v. index (py_split (CHR '','') l) 1 = Inr v \<and> v \<noteq> h)"
  by (induction ls) (auto simp: Let_def split: sum.splits)

lemma act_absent:
  assumes stat: "replies (peer 0) (p_socket m) (''show stat'' @ [newline]) cs0"
    and absent: "get_host_stat_line (p_host m) (stat_lines (concat cs0)) = Inr None"
  shows "act peer (HAProxy_init m) =
     (Raises (if p_backend m = None \<or> p_state m = ''enabled'' \<or> p_state m = ''disabled''
              then TypeError
              else FailJson (''unknown state specified: '' @ [CHR 0x27] @ p_state m @ [CHR 0x27])),
      (HAProxy_init m)
        \<lparr> command_results := strip (concat cs0), host_attributes := None, client := Some 0,
          events := exchange (p_socket m) ''show stat'' \<rparr>)"
proof -
  define s1 where "s1 = (HAProxy_init m)\<lparr>client := Some 0, command_results := strip (concat cs0),
            events := exchange (p_socket m) ''show stat''\<rparr>"
  let ?s2 = "s1\<lparr>host_attributes := None\<rparr>"
  have ex: "execute peer ''show stat'' True (HAProxy_init m) = (Returns (concat cs0), s1)"
    using execute_replies[of peer "HAProxy_init m" "''show stat''" cs0 True] stat
    by (simp add: HAProxy_init_def sockets_created_def s1_def)
  have 1: "get_stat_output peer (HAProxy_init m) = (Returns (stat_lines (concat cs0)), s1)"
    by (simp add: get_stat_output_def bnd_Returns[of "execute peer ''show stat'' True", OF ex]
        ret_def stat_lines_def)
  have 2: "set_host_attributes (stat_lines (concat cs0)) s1 = (Returns (), ?s2)"
    using absent by (simp add: set_host_attributes_def s1_def HAProxy_init_def)
  have act2: "act peer (HAProxy_init m) =
       bnd set_backend (\<lambda>_.
       bnd (act_state peer) (\<lambda>changed self.
         (Returns (ExitJson (command_results self) changed), self))) ?s2"
    unfolding act_def
    by (simp add: bnd_Returns[of "get_stat_output peer", OF 1]
        bnd_Returns[of "set_host_attributes (stat_lines (concat cs0))", OF 2])
  have f: "backend ?s2 = p_backend m" "state ?s2 = p_state m" "host_attributes ?s2 = None"
    by (simp_all add: s1_def HAProxy_init_def)
  have "act peer (HAProxy_init m) =
     (Raises (if p_backend m = None \<or> p_state m = ''enabled'' \<or> p_state m = ''disabled''
              then TypeError
              else FailJson (''unknown state specified: '' @ [CHR 0x27] @ p_state m @ [CHR 0x27])),
      ?s2)"
    using act_state_absent[of ?s2 peer] set_backend_absent[of ?s2]
    by (auto simp: act2 bnd_def f)
  then show ?thesis by (simp add: s1_def HAProxy_init_def)
qed

lemma absent_web2:
  "get_host_stat_line ''web2'' (stat_lines (stat_dump ''MAINT'' ''1'')) = Inr None"
  by (simp add: stat_lines_def stat_dump_def lstrip_chars_def strip_def whitespace_def newline_def index_def Let_def)

lemma act_state_run:
  assumes st: "p_state m = ''enabled'' \<or> p_state m = ''disabled''"
    and fp: "fields_present m attrs"
  shows "act_state peer (loaded m out attrs) =
     bnd (execute peer (spec_command m attrs) True) (\<lambda>_. ret (spec_changed m attrs))
       (loaded m out attrs)"
proof -
  let ?s = "loaded m out attrs"
  from st show ?thesis
  proof
    assume en: "p_state m = ''enabled''"
    have "enabled peer ?s = bnd (execute peer (spec_command m attrs) True)
        (\<lambda>_. ret (spec_changed m attrs)) ?s"
      using enabled_decomp[of ?s attrs peer] fp en
      by (simp add: loaded_simps fields_present_def spec_command_def spec_changed_def fmt_def
          weightChangeNeeded_def split: if_splits)
    with en show ?thesis by (simp add: act_state_def loaded_simps)
  next
    assume dis: "p_state m = ''disabled''"
    have "disabled peer ?s = bnd (execute peer (spec_command m attrs) True)
        (\<lambda>_. ret (spec_changed m attrs)) ?s"
      using disabled_decomp[of ?s attrs peer] fp dis
      by (simp add: loaded_simps fields_present_def spec_command_def spec_changed_def fmt_def
          split: if_splits)
    with dis show ?thesis by (simp add: act_state_def loaded_simps)
  qed
qed

lemma act_load_general:
  assumes stat: "fst (execute peer ''show stat'' True (HAProxy_init m)) = Returns out"
    and found: "get_host_stat_line (p_host m) (stat_lines out) = Inr (Some attrs)"
  shows "act peer (HAProxy_init m) =
     bnd (act_state peer)
       (\<lambda>changed self. (Returns (ExitJson (command_results self) changed), self))
       (loaded m out attrs)"
proof (cases rule: execute_cases[of peer "''show stat''" True "HAProxy_init m"])
  case (fail r es)
  with stat show ?thesis by auto
next
  case (ok result)
  with stat have [simp]: "result = out" by simp
  define s1 where "s1 = (HAProxy_init m)\<lparr>client := Some 0, command_results := strip out,
            events := exchange (p_socket m) ''show stat''\<rparr>"
  have ex: "execute peer ''show stat'' True (HAProxy_init m) = (Returns out, s1)"
    using ok by (simp add: HAProxy_init_def sockets_created_def s1_def)
  have 1: "get_stat_output peer (HAProxy_init m) = (Returns (stat_lines out), s1)"
    by (simp add: get_stat_output_def bnd_Returns[of "execute peer ''show stat'' True", OF ex]
        ret_def stat_lines_def)
  have 2: "set_host_attributes (stat_lines out) s1 = (Returns (), s1\<lparr>host_attributes := Some attrs\<rparr>)"
    using found by (simp add: set_host_attributes_def s1_def HAProxy_init_def)
  have len: "0 < length attrs" using found_length[OF found] by (cases attrs) auto
  have 3: "set_backend (s1\<lparr>host_attributes := Some attrs\<rparr>) = (Returns (), loaded m out attrs)"
    using len
    by (simp add: set_backend_def get_backend_def get_host_attribute_def attributes_def
        index_def loaded_def spec_pool_def HAProxy_init_def s1_def split: option.splits)
  show ?thesis
    unfolding act_def
    by (simp add: bnd_Returns[of "get_stat_output peer", OF 1]
        bnd_Returns[of "set_host_attributes (stat_lines out)", OF 2]
        bnd_Returns[of set_backend, OF 3])
qed

lemma sent_exchange [simp]: "sent (exchange p c @ es) = (c @ [newline]) # sent es"
  by (simp add: exchange_def)

lemma sent_exchange' [simp]: "sent (exchange p c) = [c @ [newline]]"
  by (simp add: exchange_def)

lemma dry_sent:
  assumes dry: "check_mode m"
  shows "\<forall>d \<in> set (sent (events (snd (act peer (HAProxy_init m))))).
           d = ''show stat'' @ [newline]
         \<or> d = spec_query (fmt (backend (snd (act peer (HAProxy_init m))))) (p_host m) @ [newline]"
proof (cases rule: act_cases[of peer m])
  case (stat_fail r es)
  then show ?thesis by auto
next
  case (raised e s)
  then show ?thesis by simp
next
  case (cmd_fail out attrs r es)
  have "spec_command m attrs = spec_query (spec_pool m attrs) (p_host m)"
    using dry by (simp add: spec_command_def)
  with cmd_fail show ?thesis by (auto simp: loaded_simps fmt_def)
next
  case (finished out attrs result)
  have "spec_command m attrs = spec_query (spec_pool m attrs) (p_host m)"
    using dry by (simp add: spec_command_def)
  with finished show ?thesis by (auto simp: loaded_simps fmt_def)
qed

lemma live_same_changed:
  assumes rep: "fst (act peer (HAProxy_init m)) = Returns (ExitJson out changed)"
  shows "case fst (act peer (HAProxy_init (m\<lparr>check_mode := b\<rparr>))) of
           Returns (ExitJson out' changed') \<Rightarrow> changed' = changed
         | Raises e \<Rightarrow> e = SocketError
         | Diverges \<Rightarrow> True"
proof (cases rule: act_cases[of peer m])
  case (stat_fail r es)
  with rep show ?thesis by auto
next
  case (raised e s)
  with rep show ?thesis by simp
next
  case (cmd_fail out attrs r es)
  with rep show ?thesis by auto
next
  case (finished out0 attrs result)
  let ?m' = "m\<lparr>check_mode := b\<rparr>"
  let ?s = "loaded ?m' out0 attrs"
  have ch: "changed = spec_changed m attrs" using rep finished(6) by simp
  have ch': "spec_changed ?m' attrs = spec_changed m attrs"
    by (simp add: spec_changed_def weightChangeNeeded_def)
  have "fst (execute peer ''show stat'' True (HAProxy_init ?m')) =
        fst (execute peer ''show stat'' True (HAProxy_init m))"
    by (rule execute_fst_cong) (simp_all add: HAProxy_init_def)
  then have stat: "fst (execute peer ''show stat'' True (HAProxy_init ?m')) = Returns out0"
    using finished(1) by simp
  have found: "get_host_stat_line (p_host ?m') (stat_lines out0) = Inr (Some attrs)"
    using finished(2) by simp
  have st: "p_state ?m' = ''enabled'' \<or> p_state ?m' = ''disabled''"
    using finished(3) by simp
  have fp: "fields_present ?m' attrs"
    using finished(4) by (simp add: fields_present_def)
  have act': "act peer (HAProxy_init ?m') =
     bnd (bnd (execute peer (spec_command ?m' attrs) True) (\<lambda>_. ret (spec_changed m attrs)))
       (\<lambda>changed self. (Returns (ExitJson (command_results self) changed), self)) ?s"
    using act_load_general[of peer ?m' out0 attrs, OF stat found]
      act_state_run[of ?m' attrs peer out0, OF st fp]
    by (simp add: bnd_def ch')
  show ?thesis
  proof (cases rule: bnd_execute_cases[of peer "spec_command ?m' attrs" True ?s "spec_changed m attrs"])
    case (ok result')
    then show ?thesis by (simp add: act' bnd_def ch)
  next
    case (fail r es)
    then show ?thesis by (auto simp: act' bnd_def)
  qed
qed


lemma round_trips_exchange: "round_trips (exchange p c @ es) = Suc (round_trips es)"
  by (simp add: exchange_def)

lemma run_B:
  "act (answering (stat_dump ''UP'' ''1'') weight_reply) (HAProxy_init scenario_B) =
       (Returns (ExitJson ''1 (initial 1)'' False),
        (loaded scenario_B (stat_dump ''UP'' ''1'') (web1_record ''UP'' ''1''))
          \<lparr> client := Some 1, command_results := ''1 (initial 1)'',
            events := exchange sock ''show stat'' @ exchange sock ''get weight www/web1'' \<rparr>)"
proof -
  let ?m = "scenario_B"
  have "act (answering (stat_dump ''UP'' ''1'') weight_reply) (HAProxy_init ?m) =
     (Returns (ExitJson (strip weight_reply) (spec_changed ?m (web1_record ''UP'' ''1''))),
      (loaded ?m (stat_dump ''UP'' ''1'') (web1_record ''UP'' ''1''))
        \<lparr> client := Some 1, command_results := strip weight_reply,
          events := exchange (p_socket ?m) ''show stat''
                    @ exchange (p_socket ?m) (spec_command ?m (web1_record ''UP'' ''1'')) \<rparr>)"
    by (rule answering_run)
       (simp_all add: scenario_B_def web1_record_simps found_web1_up' dumps_nonempty)
  moreover have "\<not> spec_changed ?m (web1_record ''UP'' ''1'')"
    by (simp add: spec_changed_def scenario_B_def inMaintenance_def web1_record_simps
        weightChangeNeeded_def isChangeNeeded_def)
  moreover have "spec_command ?m (web1_record ''UP'' ''1'') = ''get weight www/web1''"
    by (simp add: spec_command_def scenario_B_def spec_query_def spec_pool_def
        spec_enabled_command_def inMaintenance_def web1_record_simps
        weightChangeNeeded_def isChangeNeeded_def)
  moreover have "p_socket ?m = sock" by (simp add: scenario_B_def)
  ultimately show ?thesis by (simp add: strip_weight_reply)
qed


lemma execute_stat_up:
  "execute (answering (stat_dump ''UP'' ''1'') weight_reply) ''show stat'' True (HAProxy_init scenario_B) =
     (Returns (stat_dump ''UP'' ''1''),
      (HAProxy_init scenario_B)
        \<lparr> client := Some 0, command_results := strip (stat_dump ''UP'' ''1''),
          events := exchange sock ''show stat'' \<rparr>)"
  using execute_replies[of "answering (stat_dump ''UP'' ''1'') weight_reply" "HAProxy_init scenario_B"
      "''show stat''" "[stat_dump ''UP'' ''1'']" True]
    replies_answering_stat[of "stat_dump ''UP'' ''1''" weight_reply 0 sock, OF dumps_nonempty(1)]
  by (simp add: HAProxy_init_def sockets_created_def scenario_B_def)

lemma act_run:
  assumes st: "p_state m = ''enabled'' \<or> p_state m = ''disabled''"
    and stat: "replies (peer 0) (p_socket m) (''show stat'' @ [newline]) cs0"
    and found: "get_host_stat_line (p_host m) (stat_lines (concat cs0)) = Inr (Some attrs)"
    and fp: "fields_present m attrs"
    and rep: "replies (peer 1) (p_socket m) (spec_command m attrs @ [newline]) cs1"
  shows "act peer (HAProxy_init m) =
     (Returns (ExitJson (strip (concat cs1)) (spec_changed m attrs)),
      (loaded m (concat cs0) attrs)
        \<lparr> client := Some 1, command_results := strip (concat cs1),
          events := exchange (p_socket m) ''show stat''
                    @ exchange (p_socket m) (spec_command m attrs) \<rparr>)"
proof -
  let ?s = "loaded m (concat cs0) attrs"
  let ?cmd = "spec_command m attrs"
  have ex: "execute peer ?cmd True ?s =
     (Returns (concat cs1), ?s\<lparr>client := Some 1, command_results := strip (concat cs1),
          events := exchange (p_socket m) ''show stat'' @ exchange (p_socket m) ?cmd \<rparr>)"
    using execute_replies[of peer ?s ?cmd cs1 True] rep
    by (simp add: loaded_simps sockets_created_exchange)
  have "act_state peer ?s = (Returns (spec_changed m attrs),
      ?s\<lparr>client := Some 1, command_results := strip (concat cs1),
          events := exchange (p_socket m) ''show stat'' @ exchange (p_socket m) ?cmd \<rparr>)"
    by (simp add: act_state_run[OF st fp] bnd_Returns[of "execute peer ?cmd True", OF ex] ret_def)
  then show ?thesis
    by (simp add: act_load[of peer m cs0 attrs, OF stat found] bnd_def)
qed

lemma first_match:
  "get_host_stat_line h ls = Inr (Some attrs) \<Longrightarrow>
   \<exists>pre line post. ls = pre @ line # post \<and> attrs = py_split (CHR '','') line
      \<and> index attrs 1 = Inr h
      \<and> (\<forall>l \<in> set pre. \<exists>v. index (py_split (CHR '','') l) 1 = Inr v \<and> v \<noteq> h)"
proof (induction ls)
  case Nil
  then show ?case by simp
next
  case (Cons l ls)
  show ?case
  proof (cases "index (py_split (CHR '','') l) 1 = Inr h")
    case True
    with Cons.prems have "attrs = py_split (CHR '','') l" by (simp add: Let_def)
    with True have "l # ls = [] @ l # ls \<and> attrs = py_split (CHR '','') l
      \<and> index attrs 1 = Inr h
      \<and> (\<forall>l' \<in> set []. \<exists>v. index (py_split (CHR '','') l') 1 = Inr v \<and> v \<noteq> h)"
      by simp
    then show ?thesis by blast
  next
    case False
    with Cons.prems obtain v where v: "index (py_split (CHR '','') l) 1 = Inr v" "v \<noteq> h"
      and rest: "get_host_stat_line h ls = Inr (Some attrs)"
      by (auto simp: Let_def split: sum.splits if_splits)
    from Cons.IH[OF rest] obtain pre line post where
      p: "ls = pre @ line # post" "attrs = py_split (CHR '','') line" "index attrs 1 = Inr h"
        "\<forall>l \<in> set pre. \<exists>v. index (py_split (CHR '','') l) 1 = Inr v \<and> v \<noteq> h"
      by blast
    from p v have "l # ls = (l # pre) @ line # post \<and> attrs = py_split (CHR '','') line
      \<and> index attrs 1 = Inr h
      \<and> (\<forall>l' \<in> set (l # pre). \<exists>v. index (py_split (CHR '','') l') 1 = Inr v \<and> v \<noteq> h)"
      by simp
    then show ?thesis by blast
  qed
qed

lemma found_two_pools:
  "get_host_stat_line ''web1'' (stat_lines stat_dump_two_pools) = Inr (Some (web1_record ''UP'' ''1''))"
  by (simp add: stat_lines_def stat_dump_two_pools_def web1_record_def lstrip_chars_def strip_def whitespace_def newline_def index_def Let_def)

lemma py_split_examples:
  "py_split (CHR '','') [] = [Nil]"
  "py_split (CHR '','') ''x,'' = [''x'', []]"
  "py_split (CHR '','') ''www,web1,'' = [''www'', ''web1'', []]"
  "py_split (CHR '','') '',,'' = [Nil, Nil, Nil]"
  by simp_all

lemma py_split_nonempty: "py_split c xs \<noteq> []"
  by (induction xs) (auto split: list.splits)

lemma py_split_no_sep: "c \<notin> set xs \<Longrightarrow> py_split c xs = [xs]"
  by (induction xs) auto

lemma py_split_sep: "c \<notin> set xs \<Longrightarrow> py_split c (xs @ c # ys) = xs # py_split c ys"
  by (induction xs) auto

lemma commands_of_line:
  assumes "CHR '';'' \<notin> set q" and "newline \<notin> set q" and "q \<noteq> []" and "hd q \<noteq> CHR '' ''"
  shows "commands_of (q @ [newline]) = [q]"
proof -
  have "py_split newline (q @ [newline]) = [q, []]"
    using py_split_sep[OF assms(2), of "[]"] by simp
  moreover have "py_split (CHR '';'') q = [q]"
    using assms(1) by (rule py_split_no_sep)
  moreover have "lstrip_chars '' '' q = q"
    using assms(3,4) by (cases q) (simp_all add: lstrip_chars_def)
  ultimately show ?thesis
    using assms(3) by (simp add: commands_of_def lstrip_chars_def)
qed

lemma queries_not_mutating:
  assumes "CHR '';'' \<notin> set P" "newline \<notin> set P" "CHR '';'' \<notin> set H" "newline \<notin> set H"
  shows "filter (\<lambda>c. \<not> is_query c) (commands_of (''show stat'' @ [newline])) = []"
    and "filter (\<lambda>c. \<not> is_query c) (commands_of (spec_query P H @ [newline])) = []"
proof -
  have "commands_of (''show stat'' @ [newline]) = [''show stat'']"
    by (rule commands_of_line) (simp_all add: newline_def)
  then show "filter (\<lambda>c. \<not> is_query c) (commands_of (''show stat'' @ [newline])) = []"
    by (simp add: is_query_def)
  have "commands_of (spec_query P H @ [newline]) = [spec_query P H]"
    using assms by (intro commands_of_line) (auto simp: spec_query_def newline_def)
  then show "filter (\<lambda>c. \<not> is_query c) (commands_of (spec_query P H @ [newline])) = []"
    by (simp add: is_query_def spec_query_def)
qed

lemma mutating_commands_empty:
  assumes "\<forall>d \<in> set (sent es). filter (\<lambda>c. \<not> is_query c) (commands_of d) = []"
  shows "mutating_commands es = []"
  using assms unfolding mutating_commands_def
  by (induction "sent es" arbitrary: es) (auto simp: filter_concat)

















lemma first_match_found:
  assumes "index (py_split (CHR '','') line) 1 = Inr h"
    and "\<forall>l \<in> set pre. \<exists>v. index (py_split (CHR '','') l) 1 = Inr v \<and> v \<noteq> h"
  shows "get_host_stat_line h (pre @ line # post) = Inr (Some (py_split (CHR '','') line))"
  using assms by (induction pre) (auto simp: Let_def)

lemma found_last_line:
  "get_host_stat_line ''BACKEND'' (stat_lines (stat_dump ''UP'' ''1'')) =
     Inr (Some [''www'', ''BACKEND'', ''0'', ''0'', ''0'', ''0'', ''200'', ''0'', ''0'', ''0'',
                ''0'', ''0'', [], ''0'', ''0'', ''0'', ''0'', ''UP'', ''1'', []])"
  by (simp add: stat_lines_def stat_dump_def lstrip_chars_def strip_def whitespace_def newline_def index_def Let_def)

section \<open>The claims\<close>

text \<open>
  C1. The weight policy: \<open>is_weight_changed\<close> returns false when no weight is requested;
  on a member record whose weight field is \<open>current\<close> it returns what the specification's
  \<open>isChangeNeeded\<close> says, which is true exactly when a weight is requested that differs from
  \<open>current\<close> and is neither ``100%'' against ``1'' nor ``0%'' against ``0''.
\<close>

theorem is_weight_changed_policy:
  assumes "host_attributes self = Some attrs" and "18 < length attrs"
  shows "is_weight_changed None self' = Inr False
       \<and> is_weight_changed w self = Inr (isChangeNeeded w (attrs ! 18))
       \<and> isChangeNeeded w current =
           (\<exists>r. w = Some r \<and> r \<noteq> current
                \<and> \<not> (r = ''100%'' \<and> current = ''1'') \<and> \<not> (r = ''0%'' \<and> current = ''0''))"
proof (intro conjI)
  show "is_weight_changed None self' = Inr False"
    by (simp add: is_weight_changed_def)
  show "is_weight_changed w self = Inr (isChangeNeeded w (attrs ! 18))"
    using assms by (simp add: is_weight_changed_eq)
  show "isChangeNeeded w current =
           (\<exists>r. w = Some r \<and> r \<noteq> current
                \<and> \<not> (r = ''100%'' \<and> current = ''1'') \<and> \<not> (r = ''0%'' \<and> current = ''0''))"
    by (cases w) (auto simp: isChangeNeeded_def)
qed

theorem is_weight_changed_policy_witness:
  "is_weight_changed (Some ''100%'') (loaded scenario_A [] (web1_record ''UP'' ''1'')) = Inr False
 \<and> is_weight_changed (Some ''0%'') (loaded scenario_A [] (web1_record ''UP'' ''0'')) = Inr False
 \<and> is_weight_changed (Some ''50'') (loaded scenario_A [] (web1_record ''UP'' ''50'')) = Inr False
 \<and> is_weight_changed (Some ''50'') (loaded scenario_A [] (web1_record ''UP'' ''1'')) = Inr True
 \<and> is_weight_changed None (loaded scenario_A [] (web1_record ''UP'' ''1'')) = Inr False"
proof -
  have h: "host_attributes (loaded scenario_A [] (web1_record st w)) = Some (web1_record st w)"
       "18 < length (web1_record st w)" for st w
    by (simp_all add: loaded_simps web1_record_def)
  have cur: "web1_record st w ! 18 = w" for st w
    by (simp add: web1_record_def)
  note p = is_weight_changed_policy[where self' = "loaded scenario_A [] (web1_record ''UP'' ''1'')"]
  show ?thesis
    using p[where self = "loaded scenario_A [] (web1_record ''UP'' ''1'')"
              and attrs = "web1_record ''UP'' ''1''" and w = "Some ''100%''"]
      p[where self = "loaded scenario_A [] (web1_record ''UP'' ''0'')"
              and attrs = "web1_record ''UP'' ''0''" and w = "Some ''0%''"]
      p[where self = "loaded scenario_A [] (web1_record ''UP'' ''50'')"
              and attrs = "web1_record ''UP'' ''50''" and w = "Some ''50''"]
      p[where self = "loaded scenario_A [] (web1_record ''UP'' ''1'')"
              and attrs = "web1_record ''UP'' ''1''" and w = "Some ''50''"]
    by (simp add: h cur isChangeNeeded_def)
qed

text \<open>
  C2. For every request with desired state \<open>enabled\<close>, once the statistics were read and
  the member record found with the fields the run reads (the status, and the weight when
  one is requested): the run reports \<open>changed\<close> exactly when a weight change is needed or
  the member is in maintenance, and it makes two exchanges, the statistics query and one
  command. In a live run the command is the composite: the weight query, then ``set
  weight'' exactly when a weight change is needed, then ``enable server'' exactly when the
  member is in maintenance, so the query alone when nothing is to change. In a dry run,
  which the specification describes apart, the command is the weight query alone.
\<close>

theorem enabled_reconciles:
  assumes "p_state m = ''enabled''"
    and "replies (peer 0) (p_socket m) (''show stat'' @ [newline]) cs0"
    and "get_host_stat_line (p_host m) (stat_lines (concat cs0)) = Inr (Some attrs)"
    and "fields_present m attrs"
    and "cmd = (if check_mode m then spec_query (spec_pool m attrs) (p_host m)
                else spec_enabled_command (spec_pool m attrs) (p_host m) (p_weight m)
                       (weightChangeNeeded m attrs) (inMaintenance attrs))"
    and "replies (peer 1) (p_socket m) (cmd @ [newline]) cs1"
  shows "fst (act peer (HAProxy_init m)) =
           Returns (ExitJson (strip (concat cs1)) (weightChangeNeeded m attrs \<or> inMaintenance attrs))
       \<and> events (snd (act peer (HAProxy_init m))) =
           exchange (p_socket m) ''show stat'' @ exchange (p_socket m) cmd"
proof -
  have c: "spec_command m attrs = cmd"
    using assms(1,5) by (simp add: spec_command_def)
  have st: "p_state m = ''enabled'' \<or> p_state m = ''disabled''"
    using assms(1) by simp
  note run = act_run[of m peer cs0 attrs cs1, OF st assms(2) assms(3) assms(4) assms(6)[folded c]]
  show ?thesis
    using assms(1) by (simp add: run c spec_changed_def)
qed

text \<open>Scenario A: status MAINT, weight 1, requested weight 100%, live.\<close>

theorem enabled_reconciles_witness:
  "fst (act (answering (stat_dump ''MAINT'' ''1'') weight_reply) (HAProxy_init scenario_A)) =
     Returns (ExitJson ''1 (initial 1)'' True)
   \<and> events (snd (act (answering (stat_dump ''MAINT'' ''1'') weight_reply) (HAProxy_init scenario_A))) =
       exchange sock ''show stat'' @ exchange sock ''get weight www/web1; enable server www/web1''"
proof -
  let ?peer = "answering (stat_dump ''MAINT'' ''1'') weight_reply"
  let ?cmd = "''get weight www/web1; enable server www/web1''"
  let ?a = "web1_record ''MAINT'' ''1''"
  have 1: "p_state scenario_A = ''enabled''" by (simp add: scenario_A_def)
  have 2: "replies (?peer 0) (p_socket scenario_A) (''show stat'' @ [newline]) [stat_dump ''MAINT'' ''1'']"
    by (rule replies_answering_stat) (rule dumps_nonempty)
  have 3: "get_host_stat_line (p_host scenario_A) (stat_lines (concat [stat_dump ''MAINT'' ''1'']))
      = Inr (Some ?a)"
    using found_web1 by (simp add: scenario_A_def)
  have 4: "fields_present scenario_A ?a"
    by (simp add: fields_present_def web1_record_simps)
  have 5: "?cmd = (if check_mode scenario_A
                then spec_query (spec_pool scenario_A ?a) (p_host scenario_A)
                else spec_enabled_command (spec_pool scenario_A ?a)
                       (p_host scenario_A) (p_weight scenario_A)
                       (weightChangeNeeded scenario_A ?a) (inMaintenance ?a))"
    by (simp add: scenario_A_def spec_enabled_command_def spec_query_def spec_pool_def
        weightChangeNeeded_def isChangeNeeded_def inMaintenance_def web1_record_simps)
  have 6: "replies (?peer 1) (p_socket scenario_A) (?cmd @ [newline]) [weight_reply]"
    by (rule replies_answering_other) (simp_all add: weight_reply_def newline_def)
  have 7: "weightChangeNeeded scenario_A ?a \<or> inMaintenance ?a"
    by (simp add: inMaintenance_def web1_record_simps)
  show ?thesis
    using enabled_reconciles[of scenario_A ?peer "[stat_dump ''MAINT'' ''1'']" ?a ?cmd
        "[weight_reply]", OF 1 2 3 4 5 6]
    using 7 by (simp add: strip_weight_reply) (simp add: scenario_A_def)
qed

text \<open>
  C3. In \<open>disabled\<close> the sessions are shut down when the value of the parameter
  \<open>shutdown_sessions\<close> is true as Python tests it, and the parameter is declared without a
  type: a caller who writes \<open>shutdown_sessions=false\<close> passes the non-empty string
  \<open>false\<close>. The live run of scenario C with that value still sends ``shutdown sessions
  server'' behind ``disable server'', in one exchange, and reports \<open>changed = True\<close>,
  where the documentation of the option gives \<open>false\<close> as its default, under which no
  session is shut down.
\<close>

theorem shutdown_sessions_false_string:
  "act (answering (stat_dump ''UP'' ''1'') weight_reply)
     (HAProxy_init (scenario_C\<lparr>p_shutdown_sessions := PyStr ''false''\<rparr>)) =
     (Returns (ExitJson ''1 (initial 1)'' True),
      (loaded (scenario_C\<lparr>p_shutdown_sessions := PyStr ''false''\<rparr>) (stat_dump ''UP'' ''1'')
         (web1_record ''UP'' ''1''))
        \<lparr> client := Some 1, command_results := ''1 (initial 1)'',
          events := exchange sock ''show stat''
            @ exchange sock
                ''get weight www/web1; disable server www/web1; shutdown sessions server www/web1'' \<rparr>)"
proof -
  let ?m = "scenario_C\<lparr>p_shutdown_sessions := PyStr ''false''\<rparr>"
  let ?a = "web1_record ''UP'' ''1''"
  have "act (answering (stat_dump ''UP'' ''1'') weight_reply) (HAProxy_init ?m) =
     (Returns (ExitJson (strip weight_reply) (spec_changed ?m ?a)),
      (loaded ?m (stat_dump ''UP'' ''1'') ?a)
        \<lparr> client := Some 1, command_results := strip weight_reply,
          events := exchange (p_socket ?m) ''show stat''
                    @ exchange (p_socket ?m) (spec_command ?m ?a) \<rparr>)"
    by (rule answering_run)
       (simp_all add: scenario_C_def web1_record_simps found_web1_up' dumps_nonempty)
  moreover have "spec_changed ?m ?a"
    by (simp add: spec_changed_def scenario_C_def inMaintenance_def web1_record_simps)
  moreover have "spec_command ?m ?a =
      ''get weight www/web1; disable server www/web1; shutdown sessions server www/web1''"
    by (simp add: spec_command_def scenario_C_def spec_query_def spec_pool_def
        spec_disabled_command_def inMaintenance_def web1_record_simps)
  moreover have "p_socket ?m = sock" by (simp add: scenario_C_def)
  ultimately show ?thesis by (simp add: strip_weight_reply)
qed

text \<open>
  C4, as the code has it. When the statistics were read and no record has the target host
  in position 1 (every line having a position 1), the lookup yields \<open>None\<close>; the run then
  aborts with the exception raised by the first access to a field of the missing record,
  a \<open>TypeError\<close> (with a pool name supplied and a desired state other than \<open>enabled\<close>
  and \<open>disabled\<close> it is the unknown-state failure instead). Nothing reports a missing
  member record. The statistics query is the only exchange, and no result is reported.
\<close>

theorem absent_member_aborts:
  assumes "replies (peer 0) (p_socket m) (''show stat'' @ [newline]) cs0"
    and "\<forall>l \<in> set (stat_lines (concat cs0)).
           \<exists>v. index (py_split (CHR '','') l) 1 = Inr v \<and> v \<noteq> p_host m"
  shows "get_host_stat_line (p_host m) (stat_lines (concat cs0)) = Inr None
       \<and> fst (act peer (HAProxy_init m)) =
           Raises (if p_backend m = None \<or> p_state m = ''enabled'' \<or> p_state m = ''disabled''
                   then TypeError
                   else FailJson (''unknown state specified: '' @ [CHR 0x27] @ p_state m
                                    @ [CHR 0x27]))
       \<and> events (snd (act peer (HAProxy_init m))) = exchange (p_socket m) ''show stat''"
proof -
  have absent: "get_host_stat_line (p_host m) (stat_lines (concat cs0)) = Inr None"
    using assms(2) by (simp add: lookup_none_iff)
  show ?thesis
    by (simp add: absent act_absent[of peer m cs0, OF assms(1) absent])
qed

text \<open>Scenario D: the host \<open>web2\<close> is not in the dump.\<close>

theorem absent_member_aborts_witness:
  "get_host_stat_line ''web2'' (stat_lines (stat_dump ''MAINT'' ''1'')) = Inr None
   \<and> fst (act (answering (stat_dump ''MAINT'' ''1'') weight_reply) (HAProxy_init scenario_D)) =
       Raises TypeError
   \<and> events (snd (act (answering (stat_dump ''MAINT'' ''1'') weight_reply) (HAProxy_init scenario_D))) =
       exchange sock ''show stat''"
proof -
  let ?peer = "answering (stat_dump ''MAINT'' ''1'') weight_reply"
  have 1: "replies (?peer 0) (p_socket scenario_D) (''show stat'' @ [newline]) [stat_dump ''MAINT'' ''1'']"
    by (rule replies_answering_stat) (rule dumps_nonempty)
  have 2: "\<forall>l \<in> set (stat_lines (concat [stat_dump ''MAINT'' ''1''])).
           \<exists>v. index (py_split (CHR '','') l) 1 = Inr v \<and> v \<noteq> p_host scenario_D"
    using absent_web2 by (simp add: lookup_none_iff scenario_D_def)
  show ?thesis
    using absent_member_aborts[of ?peer scenario_D "[stat_dump ''MAINT'' ''1'']", OF 1 2]
    by (simp add: scenario_D_def)
qed

text \<open>
  The claim as stated fails: the run of scenario D ends in a \<open>TypeError\<close>, having kept
  \<open>None\<close> as the member record, and not in a report that the member record is missing.
\<close>

theorem absent_member_counterexample:
  "act (answering (stat_dump ''MAINT'' ''1'') weight_reply) (HAProxy_init scenario_D) =
     (Raises TypeError,
      (HAProxy_init scenario_D)
        \<lparr> command_results := strip (stat_dump ''MAINT'' ''1''), host_attributes := None,
          client := Some 0, events := exchange sock ''show stat'' \<rparr>)"
proof -
  let ?peer = "answering (stat_dump ''MAINT'' ''1'') weight_reply"
  have 1: "replies (?peer 0) (p_socket scenario_D) (''show stat'' @ [newline]) [stat_dump ''MAINT'' ''1'']"
    by (rule replies_answering_stat) (rule dumps_nonempty)
  have 2: "get_host_stat_line (p_host scenario_D) (stat_lines (concat [stat_dump ''MAINT'' ''1''])) = Inr None"
    using absent_web2 by (simp add: scenario_D_def)
  show ?thesis
    using act_absent[of ?peer scenario_D "[stat_dump ''MAINT'' ''1'']", OF 1 2]
    by (simp add: scenario_D_def)
qed

text \<open>
  C5, as the code has it. For every request with the dry-run flag set, whatever the peer
  does: every message sent is the statistics query or the weight query built from the
  pool and host names; when neither name holds a command separator or a line break, no
  command other than these two queries reaches the socket; and when the dry run reports
  \<open>changed\<close>, the live run of the same request against the same peer reports the same
  value, unless its own command exchange fails or never ends.
\<close>

theorem dry_run_purity:
  assumes "check_mode m"
    and "CHR '';'' \<notin> set (p_host m)" and "newline \<notin> set (p_host m)"
    and "CHR '';'' \<notin> set (fmt (backend (snd (act peer (HAProxy_init m)))))"
    and "newline \<notin> set (fmt (backend (snd (act peer (HAProxy_init m)))))"
  shows "mutating_commands (events (snd (act peer (HAProxy_init m)))) = []
       \<and> (\<forall>d \<in> set (sent (events (snd (act peer (HAProxy_init m))))).
            d = ''show stat'' @ [newline]
          \<or> d = spec_query (fmt (backend (snd (act peer (HAProxy_init m))))) (p_host m)
                @ [newline])
       \<and> (\<forall>out changed.
            fst (act peer (HAProxy_init m)) = Returns (ExitJson out changed) \<longrightarrow>
            (case fst (act peer (HAProxy_init (m\<lparr>check_mode := False\<rparr>))) of
               Returns (ExitJson out' changed') \<Rightarrow> changed' = changed
             | Raises e \<Rightarrow> e = SocketError
             | Diverges \<Rightarrow> True))"
proof (intro conjI)
  let ?es = "events (snd (act peer (HAProxy_init m)))"
  let ?P = "fmt (backend (snd (act peer (HAProxy_init m))))"
  have forms: "\<forall>d \<in> set (sent ?es).
      d = ''show stat'' @ [newline] \<or> d = spec_query ?P (p_host m) @ [newline]"
    using assms(1) by (rule dry_sent)
  then show "\<forall>d \<in> set (sent ?es).
      d = ''show stat'' @ [newline] \<or> d = spec_query ?P (p_host m) @ [newline]" .
  have "\<forall>d \<in> set (sent ?es). filter (\<lambda>c. \<not> is_query c) (commands_of d) = []"
    using forms queries_not_mutating[OF assms(4) assms(5) assms(2) assms(3)] by auto
  then show "mutating_commands ?es = []"
    by (rule mutating_commands_empty)
  show "\<forall>out changed.
            fst (act peer (HAProxy_init m)) = Returns (ExitJson out changed) \<longrightarrow>
            (case fst (act peer (HAProxy_init (m\<lparr>check_mode := False\<rparr>))) of
               Returns (ExitJson out' changed') \<Rightarrow> changed' = changed
             | Raises e \<Rightarrow> e = SocketError
             | Diverges \<Rightarrow> True)"
    using live_same_changed[of peer m _ _ False] by blast
qed

text \<open>Scenario A as a dry run: two queries are sent, and the live run reports the same.\<close>

theorem dry_run_purity_witness:
  "check_mode (scenario_A\<lparr>check_mode := True\<rparr>)
   \<and> fst (act (answering (stat_dump ''MAINT'' ''1'') weight_reply)
            (HAProxy_init (scenario_A\<lparr>check_mode := True\<rparr>))) =
       Returns (ExitJson ''1 (initial 1)'' True)
   \<and> mutating_commands
        (events (snd (act (answering (stat_dump ''MAINT'' ''1'') weight_reply)
                       (HAProxy_init (scenario_A\<lparr>check_mode := True\<rparr>))))) = []
   \<and> set (sent (events (snd (act (answering (stat_dump ''MAINT'' ''1'') weight_reply)
                               (HAProxy_init (scenario_A\<lparr>check_mode := True\<rparr>))))))
       \<subseteq> {''show stat\<newline>'', ''get weight www/web1\<newline>''}
   \<and> (case fst (act (answering (stat_dump ''MAINT'' ''1'') weight_reply)
                  (HAProxy_init (scenario_A\<lparr>check_mode := False\<rparr>))) of
         Returns (ExitJson out' changed') \<Rightarrow> changed' = True
       | Raises e \<Rightarrow> e = SocketError
       | Diverges \<Rightarrow> True)"
proof -
  let ?m = "scenario_A\<lparr>check_mode := True\<rparr>"
  let ?peer = "answering (stat_dump ''MAINT'' ''1'') weight_reply"
  have dry: "check_mode ?m" by simp
  have run: "act ?peer (HAProxy_init ?m) =
     (Returns (ExitJson (strip weight_reply) (spec_changed ?m (web1_record ''MAINT'' ''1''))),
      (loaded ?m (stat_dump ''MAINT'' ''1'') (web1_record ''MAINT'' ''1''))
        \<lparr> client := Some 1, command_results := strip weight_reply,
          events := exchange (p_socket ?m) ''show stat''
                    @ exchange (p_socket ?m) (spec_command ?m (web1_record ''MAINT'' ''1'')) \<rparr>)"
    by (rule answering_run)
       (simp_all add: scenario_A_def web1_record_simps found_web1' dumps_nonempty)
  have ch: "spec_changed ?m (web1_record ''MAINT'' ''1'')"
    by (simp add: spec_changed_def scenario_A_def inMaintenance_def web1_record_simps)
  have rep: "fst (act ?peer (HAProxy_init ?m)) = Returns (ExitJson ''1 (initial 1)'' True)"
    by (simp add: run strip_weight_reply ch)
  have pool: "spec_pool ?m (web1_record ''MAINT'' ''1'') = ''www''"
    by (simp add: spec_pool_def scenario_A_def)
  have bk: "fmt (backend (snd (act ?peer (HAProxy_init ?m)))) = ''www''"
    by (simp add: run loaded_simps fmt_def pool)
  have ho: "p_host ?m = ''web1''"
    by (simp add: scenario_A_def)
  have names: "CHR '';'' \<notin> set (p_host ?m)" "newline \<notin> set (p_host ?m)"
    "CHR '';'' \<notin> set (fmt (backend (snd (act ?peer (HAProxy_init ?m)))))"
    "newline \<notin> set (fmt (backend (snd (act ?peer (HAProxy_init ?m)))))"
    by (simp_all add: bk ho newline_def)
  note inst = dry_run_purity[of ?m ?peer, OF dry names, unfolded bk ho]
  from inst have 0: "mutating_commands (events (snd (act ?peer (HAProxy_init ?m)))) = []"
    by blast
  from inst have 1: "set (sent (events (snd (act ?peer (HAProxy_init ?m)))))
       \<subseteq> {''show stat\<newline>'', ''get weight www/web1\<newline>''}"
    by (auto simp: spec_query_def newline_def)
  from inst rep have 2: "(case fst (act ?peer (HAProxy_init (?m\<lparr>check_mode := False\<rparr>))) of
         Returns (ExitJson out' changed') \<Rightarrow> changed' = True
       | Raises e \<Rightarrow> e = SocketError
       | Diverges \<Rightarrow> True)"
    by blast
  from dry rep 0 1 2 show ?thesis by simp
qed

text \<open>
  The claim as stated fails for a request whose pool name carries a command: the names are
  pasted into the query unchecked, so the dry run of scenario F, which only previews the
  disabling of \<open>web1\<close>, sends ``disable server www/web1'' behind the weight query.
\<close>

theorem dry_run_injection_counterexample:
  "check_mode scenario_F
   \<and> events (snd (act (answering (stat_dump ''UP'' ''1'') weight_reply) (HAProxy_init scenario_F))) =
       exchange sock ''show stat''
       @ exchange sock ''get weight www/web1; disable server www/web1''
   \<and> mutating_commands
        (events (snd (act (answering (stat_dump ''UP'' ''1'') weight_reply)
                       (HAProxy_init scenario_F)))) = [''disable server www/web1'']"
proof -
  let ?m = scenario_F
  let ?a = "web1_record ''UP'' ''1''"
  have run: "act (answering (stat_dump ''UP'' ''1'') weight_reply) (HAProxy_init ?m) =
     (Returns (ExitJson (strip weight_reply) (spec_changed ?m ?a)),
      (loaded ?m (stat_dump ''UP'' ''1'') ?a)
        \<lparr> client := Some 1, command_results := strip weight_reply,
          events := exchange (p_socket ?m) ''show stat''
                    @ exchange (p_socket ?m) (spec_command ?m ?a) \<rparr>)"
    by (rule answering_run)
       (simp_all add: scenario_F_def web1_record_simps found_web1_up' dumps_nonempty)
  have cmd: "spec_command ?m ?a = ''get weight www/web1; disable server www/web1''"
    by (simp add: spec_command_def scenario_F_def spec_query_def spec_pool_def)
  have so: "p_socket ?m = sock" by (simp add: scenario_F_def)
  have ev: "events (snd (act (answering (stat_dump ''UP'' ''1'') weight_reply) (HAProxy_init ?m))) =
       exchange sock ''show stat'' @ exchange sock ''get weight www/web1; disable server www/web1''"
    by (simp add: run cmd so)
  have mu: "mutating_commands
      (exchange sock ''show stat'' @ exchange sock ''get weight www/web1; disable server www/web1'')
      = [''disable server www/web1'']"
    by (simp add: mutating_commands_def commands_of_def exchange_def newline_def
        lstrip_chars_def is_query_def)
  have "check_mode ?m" by (simp add: scenario_F_def)
  with ev mu show ?thesis by simp
qed




text \<open>
  C7, as the code has it. Every invocation that reports a result has made exactly two
  round trips, the statistics query and one command, whether the command changes anything
  or is the weight query of a run that finds nothing to change; an invocation that fails
  or never ends has completed fewer than two.
\<close>

theorem round_trips_of_act:
  "(case fst (act peer (HAProxy_init m)) of
      Returns x \<Rightarrow> round_trips (events (snd (act peer (HAProxy_init m)))) = 2
    | Raises e \<Rightarrow> round_trips (events (snd (act peer (HAProxy_init m)))) < 2
    | Diverges \<Rightarrow> round_trips (events (snd (act peer (HAProxy_init m)))) < 2)"
proof (cases rule: act_cases[of peer m])
  case (stat_fail r es)
  then show ?thesis by auto
next
  case (raised e s)
  then show ?thesis
    using round_trips_exchange[of "p_socket m" "''show stat''" "[]"] by simp
next
  case (cmd_fail out attrs r es)
  then show ?thesis
    using round_trips_exchange[of "p_socket m" "''show stat''" es] by auto
next
  case (finished out attrs result)
  then show ?thesis
    using round_trips_exchange[of "p_socket m" "''show stat''" "exchange (p_socket m) (spec_command m attrs)"]
      round_trips_exchange[of "p_socket m" "spec_command m attrs" "[]"]
    by simp
qed

text \<open>Scenario B, where nothing is to change: the result is reported after two round trips.\<close>

theorem round_trips_of_act_witness:
  "fst (act (answering (stat_dump ''UP'' ''1'') weight_reply) (HAProxy_init scenario_B)) =
     Returns (ExitJson ''1 (initial 1)'' False)
   \<and> round_trips (events (snd (act (answering (stat_dump ''UP'' ''1'') weight_reply)
                                   (HAProxy_init scenario_B)))) = 2"
proof -
  have r: "fst (act (answering (stat_dump ''UP'' ''1'') weight_reply) (HAProxy_init scenario_B)) =
     Returns (ExitJson ''1 (initial 1)'' False)"
    by (simp add: run_B)
  from round_trips_of_act[of "answering (stat_dump ''UP'' ''1'') weight_reply" scenario_B]
  have "round_trips (events (snd (act (answering (stat_dump ''UP'' ''1'') weight_reply)
                                   (HAProxy_init scenario_B)))) = 2"
    unfolding r by simp
  with r show ?thesis by simp
qed

text \<open>
  The claim as stated fails on the no-op path: in scenario B nothing is to change, and the
  run still makes two complete exchanges, the statistics query and the weight query.
\<close>

theorem noop_round_trips_counterexample:
  "act (answering (stat_dump ''UP'' ''1'') weight_reply) (HAProxy_init scenario_B) =
       (Returns (ExitJson ''1 (initial 1)'' False),
        (loaded scenario_B (stat_dump ''UP'' ''1'') (web1_record ''UP'' ''1''))
          \<lparr> client := Some 1, command_results := ''1 (initial 1)'',
            events := exchange sock ''show stat'' @ exchange sock ''get weight www/web1'' \<rparr>)
   \<and> round_trips (exchange sock ''show stat'' @ exchange sock ''get weight www/web1'') = 2"
  by (simp add: run_B round_trips_exchange[of _ _ "exchange _ _"]
      round_trips_exchange[of _ _ "[]", simplified])




text \<open>
  C9, as the code has it. Every exchange creates a socket of its own. The socket is closed
  when the exchange completes normally, and only then: when connect, sendall or recv
  raises, or the peer never closes the stream, \<open>close\<close> is not called and the socket of
  the exchange stays open.
\<close>

theorem execute_sockets:
  "sockets_created (events (snd (execute peer cmd log self))) =
     Suc (sockets_created (events self))
   \<and> open_sockets (events (snd (execute peer cmd log self))) =
     open_sockets (events self)
     + (case fst (execute peer cmd log self) of
          Returns result \<Rightarrow> 0
        | Raises e \<Rightarrow> 1
        | Diverges \<Rightarrow> 1)"
proof (cases rule: execute_cases[of peer cmd log self])
  case (ok result)
  then show ?thesis
    by (simp add: sockets_created_def open_sockets_def exchange_def)
next
  case (fail r es)
  then show ?thesis
    by (auto simp: sockets_created_def open_sockets_def)
qed

text \<open>An exchange that completes: one socket created, none left open.\<close>

theorem execute_sockets_witness:
  "fst (execute (answering (stat_dump ''UP'' ''1'') weight_reply) ''show stat'' True
          (HAProxy_init scenario_B)) = Returns (stat_dump ''UP'' ''1'')
   \<and> sockets_created (events (snd (execute (answering (stat_dump ''UP'' ''1'') weight_reply)
                                      ''show stat'' True (HAProxy_init scenario_B)))) = 1
   \<and> open_sockets (events (snd (execute (answering (stat_dump ''UP'' ''1'') weight_reply)
                                   ''show stat'' True (HAProxy_init scenario_B)))) = 0"
proof -
  let ?peer = "answering (stat_dump ''UP'' ''1'') weight_reply"
  have r: "fst (execute ?peer ''show stat'' True (HAProxy_init scenario_B)) = Returns (stat_dump ''UP'' ''1'')"
    by (simp add: execute_stat_up)
  have e: "events (HAProxy_init scenario_B) = []"
    by (simp add: HAProxy_init_def)
  from execute_sockets[of ?peer "''show stat''" True "HAProxy_init scenario_B", unfolded r e]
  have "sockets_created (events (snd (execute ?peer ''show stat'' True (HAProxy_init scenario_B)))) = 1
    \<and> open_sockets (events (snd (execute ?peer ''show stat'' True (HAProxy_init scenario_B)))) = 0"
    by (simp add: sockets_created_def open_sockets_def)
  with r show ?thesis by simp
qed

text \<open>
  The claim as stated fails on an error path: when the connect is refused the exchange
  raises with its socket created and not closed, and the invocation ends that way.
\<close>

theorem refused_connect_counterexample:
  "execute refusing ''show stat'' True (HAProxy_init scenario_B) =
     (Raises SocketError,
      (HAProxy_init scenario_B) \<lparr> client := Some 0, events := [EvSocket, EvConnect sock] \<rparr>)
   \<and> open_sockets [EvSocket, EvConnect sock] = 1
   \<and> main refusing scenario_B = (Raises SocketError, [EvSocket, EvConnect sock])"
proof -
  have ex: "execute refusing ''show stat'' True (HAProxy_init scenario_B) =
     (Raises SocketError,
      (HAProxy_init scenario_B) \<lparr> client := Some 0, events := [EvSocket, EvConnect sock] \<rparr>)"
    by (simp add: execute_def Let_def refusing_def log_event_def HAProxy_init_def
        sockets_created_def scenario_B_def)
  have "act refusing (HAProxy_init scenario_B) =
     (Raises SocketError,
      (HAProxy_init scenario_B) \<lparr> client := Some 0, events := [EvSocket, EvConnect sock] \<rparr>)"
    by (simp add: act_def get_stat_output_def bnd_def ex)
  then have "main refusing scenario_B = (Raises SocketError, [EvSocket, EvConnect sock])"
    by (simp add: main_def ACTION_CHOICES_def) (simp add: scenario_B_def)
  with ex show ?thesis by (simp add: open_sockets_def)
qed

text \<open>
  C10. The lookup returns a record exactly when some line of the dump has the target host
  in position 1 and every line before it has another name there, and the record is that
  first line, split at the commas. When no pool name is supplied the run takes position 0
  of that record as the pool, and what it sends after the statistics query is exactly the
  command of the same request with that pool named: one command for one pool, whatever
  other pools list the host.
\<close>

theorem first_record_decides:
  "(get_host_stat_line h ls = Inr (Some attrs) \<longleftrightarrow>
      (\<exists>pre line post. ls = pre @ line # post \<and> attrs = py_split (CHR '','') line
         \<and> index attrs 1 = Inr h
         \<and> (\<forall>l \<in> set pre. \<exists>v. index (py_split (CHR '','') l) 1 = Inr v \<and> v \<noteq> h)))
 \<and> ((p_state m = ''enabled'' \<or> p_state m = ''disabled'') \<and> p_backend m = None
      \<and> replies (peer 0) (p_socket m) (''show stat'' @ [newline]) cs0
      \<and> get_host_stat_line (p_host m) (stat_lines (concat cs0)) = Inr (Some record0)
      \<and> fields_present m record0
      \<and> replies (peer 1) (p_socket m)
           (spec_command (m\<lparr>p_backend := Some (record0 ! 0)\<rparr>) record0 @ [newline]) cs1
    \<longrightarrow>
      backend (snd (act peer (HAProxy_init m))) = Some (record0 ! 0)
      \<and> events (snd (act peer (HAProxy_init m))) =
          exchange (p_socket m) ''show stat''
          @ exchange (p_socket m) (spec_command (m\<lparr>p_backend := Some (record0 ! 0)\<rparr>) record0))"
proof (intro conjI impI iffI)
  assume "get_host_stat_line h ls = Inr (Some attrs)"
  then show "\<exists>pre line post. ls = pre @ line # post \<and> attrs = py_split (CHR '','') line
         \<and> index attrs 1 = Inr h
         \<and> (\<forall>l \<in> set pre. \<exists>v. index (py_split (CHR '','') l) 1 = Inr v \<and> v \<noteq> h)"
    by (rule first_match)
next
  assume "\<exists>pre line post. ls = pre @ line # post \<and> attrs = py_split (CHR '','') line
         \<and> index attrs 1 = Inr h
         \<and> (\<forall>l \<in> set pre. \<exists>v. index (py_split (CHR '','') l) 1 = Inr v \<and> v \<noteq> h)"
  then obtain pre line post where p: "ls = pre @ line # post" "attrs = py_split (CHR '','') line"
      "index attrs 1 = Inr h"
      "\<forall>l \<in> set pre. \<exists>v. index (py_split (CHR '','') l) 1 = Inr v \<and> v \<noteq> h"
    by blast
  show "get_host_stat_line h ls = Inr (Some attrs)"
    unfolding p(1) p(2) using p(3)[unfolded p(2)] p(4) by (rule first_match_found)
next
  assume a: "(p_state m = ''enabled'' \<or> p_state m = ''disabled'') \<and> p_backend m = None
      \<and> replies (peer 0) (p_socket m) (''show stat'' @ [newline]) cs0
      \<and> get_host_stat_line (p_host m) (stat_lines (concat cs0)) = Inr (Some record0)
      \<and> fields_present m record0
      \<and> replies (peer 1) (p_socket m)
           (spec_command (m\<lparr>p_backend := Some (record0 ! 0)\<rparr>) record0 @ [newline]) cs1"
  have pool: "spec_pool m record0 = record0 ! 0"
    using a by (simp add: spec_pool_def)
  have cmd: "spec_command (m\<lparr>p_backend := Some (record0 ! 0)\<rparr>) record0 = spec_command m record0"
    by (simp add: spec_command_def spec_pool_def pool[unfolded spec_pool_def]
        weightChangeNeeded_def)
  from a have h: "p_state m = ''enabled'' \<or> p_state m = ''disabled''"
      "replies (peer 0) (p_socket m) (''show stat'' @ [newline]) cs0"
      "get_host_stat_line (p_host m) (stat_lines (concat cs0)) = Inr (Some record0)"
      "fields_present m record0"
      "replies (peer 1) (p_socket m) (spec_command m record0 @ [newline]) cs1"
    by (simp_all add: cmd)
  note run = act_run[of m peer cs0 record0 cs1, OF h]
  show "backend (snd (act peer (HAProxy_init m))) = Some (record0 ! 0)"
    by (simp add: run loaded_simps pool)
  show "events (snd (act peer (HAProxy_init m))) =
          exchange (p_socket m) ''show stat''
          @ exchange (p_socket m) (spec_command (m\<lparr>p_backend := Some (record0 ! 0)\<rparr>) record0)"
    by (simp add: run cmd)
qed

text \<open>
  The host \<open>web1\<close> is a member of the pools \<open>www\<close> and \<open>api\<close>, in that order, and no pool
  is named: the member is disabled in \<open>www\<close> alone. The records keep the empty field
  after their last comma, and a member listed on the last line of a dump is found.
\<close>

theorem first_record_decides_witness:
  "get_host_stat_line ''web1'' (stat_lines stat_dump_two_pools) = Inr (Some (web1_record ''UP'' ''1''))
   \<and> web1_record ''UP'' ''1'' = py_split (CHR '','') ''www,web1,0,0,0,0,,0,0,0,,0,,0,0,0,0,UP,1,''
   \<and> get_host_stat_line ''BACKEND'' (stat_lines (stat_dump ''UP'' ''1'')) =
       Inr (Some [''www'', ''BACKEND'', ''0'', ''0'', ''0'', ''0'', ''200'', ''0'', ''0'', ''0'',
                  ''0'', ''0'', [], ''0'', ''0'', ''0'', ''0'', ''UP'', ''1'', []])
   \<and> backend (snd (act (answering stat_dump_two_pools weight_reply) (HAProxy_init scenario_E))) =
       Some ''www''
   \<and> events (snd (act (answering stat_dump_two_pools weight_reply) (HAProxy_init scenario_E))) =
       exchange sock ''show stat'' @ exchange sock ''get weight www/web1; disable server www/web1''"
proof -
  let ?peer = "answering stat_dump_two_pools weight_reply"
  let ?m = scenario_E
  let ?a = "web1_record ''UP'' ''1''"
  have m: "p_state ?m = ''disabled''" "p_backend ?m = None" "p_host ?m = ''web1''"
    "p_socket ?m = sock"
    by (simp_all add: scenario_E_def)
  have ne: "stat_dump_two_pools \<noteq> []" by (simp add: stat_dump_two_pools_def)
  have cmd: "spec_command (?m\<lparr>p_backend := Some (?a ! 0)\<rparr>) ?a
      = ''get weight www/web1; disable server www/web1''"
    by (simp add: spec_command_def spec_disabled_command_def spec_query_def spec_pool_def
        scenario_E_def inMaintenance_def web1_record_simps)
  have h1: "replies (?peer 0) (p_socket ?m) (''show stat'' @ [newline]) [stat_dump_two_pools]"
    using ne by (rule replies_answering_stat)
  have h2: "get_host_stat_line (p_host ?m) (stat_lines (concat [stat_dump_two_pools])) = Inr (Some ?a)"
    using found_two_pools by (simp add: m)
  have h3: "fields_present ?m ?a"
    by (simp add: fields_present_def web1_record_simps m)
  have h4: "replies (?peer 1) (p_socket ?m)
       (''get weight www/web1; disable server www/web1'' @ [newline]) [weight_reply]"
    by (rule replies_answering_other) (simp_all add: dumps_nonempty)
  note inst = first_record_decides[where m = ?m and peer = ?peer
      and ?cs0.0 = "[stat_dump_two_pools]" and ?record0.0 = ?a and ?cs1.0 = "[weight_reply]",
      unfolded cmd, THEN conjunct2]
  from inst m(1,2) h1 h2 h3 h4
  have "backend (snd (act ?peer (HAProxy_init ?m))) = Some (?a ! 0)
      \<and> events (snd (act ?peer (HAProxy_init ?m))) =
          exchange (p_socket ?m) ''show stat''
          @ exchange (p_socket ?m) ''get weight www/web1; disable server www/web1''"
    by blast
  moreover have "?a = py_split (CHR '','') ''www,web1,0,0,0,0,,0,0,0,,0,,0,0,0,0,UP,1,''"
    by (simp add: web1_record_def)
  ultimately show ?thesis
    using found_two_pools found_last_line by (simp add: web1_record_simps m(4))
qed

end
